theory Spec2Isabelle
  imports Main
begin

unbundle bit_operations_syntax

section \<open>Go library functions used by the transformer\<close>

text \<open>
  Go strings are byte sequences; they are modelled as \<^typ>\<open>string\<close>.  The corpus is
  7-bit mail text, and the functions of package \<^verbatim>\<open>strings\<close> that are aware of Unicode
  (\<^verbatim>\<open>ToLower\<close>, \<^verbatim>\<open>TrimSpace\<close>, \<^verbatim>\<open>Title\<close>) are modelled by what they do on ASCII bytes;
  bytes above 127 are passed through unchanged.
\<close>

subsection \<open>Package strings\<close>

definition isUpper :: "char \<Rightarrow> bool" where
  "isUpper c = (65 \<le> (of_char c :: nat) \<and> (of_char c :: nat) \<le> 90)"

definition isLower :: "char \<Rightarrow> bool" where
  "isLower c = (97 \<le> (of_char c :: nat) \<and> (of_char c :: nat) \<le> 122)"

definition isDigit :: "char \<Rightarrow> bool" where
  "isDigit c = (48 \<le> (of_char c :: nat) \<and> (of_char c :: nat) \<le> 57)"

definition isLetter :: "char \<Rightarrow> bool" where
  "isLetter c = (isUpper c \<or> isLower c)"

definition toLowerChar :: "char \<Rightarrow> char" where
  "toLowerChar c =
     (case map_of (zip ''ABCDEFGHIJKLMNOPQRSTUVWXYZ'' ''abcdefghijklmnopqrstuvwxyz'') c of
        Some d \<Rightarrow> d
      | None \<Rightarrow> c)"

definition toUpperChar :: "char \<Rightarrow> char" where
  "toUpperChar c =
     (case map_of (zip ''abcdefghijklmnopqrstuvwxyz'' ''ABCDEFGHIJKLMNOPQRSTUVWXYZ'') c of
        Some d \<Rightarrow> d
      | None \<Rightarrow> c)"

definition ToLower :: "string \<Rightarrow> string" where
  "ToLower s = map toLowerChar s"

text \<open>\<^verbatim>\<open>unicode.IsSpace\<close> on ASCII: tab, line feed, vertical tab, form feed, carriage
  return and space.\<close>

definition isSpace :: "char \<Rightarrow> bool" where
  "isSpace c = (c \<in> set [CHR 0x09, CHR 0x0A, CHR 0x0B, CHR 0x0C, CHR 0x0D, CHR 0x20])"

definition TrimSpace :: "string \<Rightarrow> string" where
  "TrimSpace s = rev (dropWhile isSpace (rev (dropWhile isSpace s)))"

fun HasPrefix :: "string \<Rightarrow> string \<Rightarrow> bool" where
  "HasPrefix s [] = True"
| "HasPrefix [] (p # ps) = False"
| "HasPrefix (c # cs) (p # ps) = (c = p \<and> HasPrefix cs ps)"

fun Contains :: "string \<Rightarrow> string \<Rightarrow> bool" where
  "Contains [] sub = (sub = [])"
| "Contains (c # cs) sub = (HasPrefix (c # cs) sub \<or> Contains cs sub)"

text \<open>\<^verbatim>\<open>strings.Index\<close> returns \<^verbatim>\<open>-1\<close> when the substring is absent: \<^term>\<open>None\<close> here.\<close>

fun Index :: "string \<Rightarrow> string \<Rightarrow> nat option" where
  "Index [] sub = (if sub = [] then Some 0 else None)"
| "Index (c # cs) sub =
     (if HasPrefix (c # cs) sub then Some 0 else map_option Suc (Index cs sub))"

text \<open>\<^verbatim>\<open>strings.Split\<close> and \<^verbatim>\<open>strings.ReplaceAll\<close> for a non-empty separator or pattern,
  which is the only way the transformer calls them.\<close>

fun splitFrom :: "string \<Rightarrow> string \<Rightarrow> string \<Rightarrow> string list" where
  "splitFrom sep acc [] = [rev acc]"
| "splitFrom sep acc (c # cs) =
     (if sep \<noteq> [] \<and> HasPrefix (c # cs) sep
      then rev acc # splitFrom sep [] (drop (length sep - 1) cs)
      else splitFrom sep (c # acc) cs)"

definition Split :: "string \<Rightarrow> string \<Rightarrow> string list" where
  "Split s sep = splitFrom sep [] s"

fun Join :: "string list \<Rightarrow> string \<Rightarrow> string" where
  "Join [] sep = []"
| "Join [x] sep = x"
| "Join (x # y # ys) sep = x @ sep @ Join (y # ys) sep"

fun ReplaceAll :: "string \<Rightarrow> string \<Rightarrow> string \<Rightarrow> string" where
  "ReplaceAll [] old new = []"
| "ReplaceAll (c # cs) old new =
     (if old \<noteq> [] \<and> HasPrefix (c # cs) old
      then new @ ReplaceAll (drop (length old - 1) cs) old new
      else c # ReplaceAll cs old new)"

text \<open>\<^verbatim>\<open>strings.Title\<close>: a letter that follows a separator (anything but an ASCII letter,
  digit or underscore) is upper-cased; the string starts after a separator.\<close>

definition isSeparator :: "char \<Rightarrow> bool" where
  "isSeparator c = (\<not> (isDigit c \<or> isLetter c \<or> c = CHR ''_''))"

fun titleFrom :: "char \<Rightarrow> string \<Rightarrow> string" where
  "titleFrom prev [] = []"
| "titleFrom prev (c # cs) = (if isSeparator prev then toUpperChar c else c) # titleFrom c cs"

definition Title :: "string \<Rightarrow> string" where
  "Title s = titleFrom (CHR '' '') s"

text \<open>Byte-wise lexicographic order, the \<^verbatim>\<open><\<close> of Go strings.\<close>

fun stringLess :: "string \<Rightarrow> string \<Rightarrow> bool" where
  "stringLess [] [] = False"
| "stringLess [] (b # bs) = True"
| "stringLess (a # as) [] = False"
| "stringLess (a # as) (b # bs) =
     ((of_char a :: nat) < of_char b \<or> (a = b \<and> stringLess as bs))"

text \<open>\<^verbatim>\<open>fmt.Sprintf("%d", n)\<close>.\<close>

fun showNat :: "nat \<Rightarrow> string" where
  "showNat n =
     (if n < 10 then [''0123456789'' ! n] else showNat (n div 10) @ [''0123456789'' ! (n mod 10)])"

declare showNat.simps [simp del]

definition showInt :: "int \<Rightarrow> string" where
  "showInt i = (if i < 0 then CHR ''-'' # showNat (nat (- i)) else showNat (nat i))"

subsection \<open>Package sort\<close>

text \<open>
  In Go 1.21, the version that builds the transformer, \<^verbatim>\<open>sort.Slice\<close> and
  \<^verbatim>\<open>sort.Strings\<close> run insertion sort on a slice of at most twelve elements:
  \<^verbatim>\<open>for i := a + 1; i < b; i++ { for j := i; j > a && less(j, j-1); j-- { swap(j, j-1) } }\<close>
  The sorted prefix is kept reversed, so that its head is the left neighbour of the
  element that moves.  On longer slices the library switches to pattern-defeating
  quicksort, which also orders the slice by \<open>less\<close> but may place elements that
  compare equal differently; for a total order such as the one of strings the result
  is the same.
\<close>

fun insertLeft :: "('a \<Rightarrow> 'a \<Rightarrow> bool) \<Rightarrow> 'a \<Rightarrow> 'a list \<Rightarrow> 'a list" where
  "insertLeft lt x [] = [x]"
| "insertLeft lt x (y # ys) = (if lt x y then y # insertLeft lt x ys else x # y # ys)"

definition insertionSort :: "('a \<Rightarrow> 'a \<Rightarrow> bool) \<Rightarrow> 'a list \<Rightarrow> 'a list" where
  "insertionSort lt xs = rev (foldl (\<lambda>acc x. insertLeft lt x acc) [] xs)"

definition sortStrings :: "string list \<Rightarrow> string list" where
  "sortStrings xs = insertionSort stringLess xs"

subsection \<open>Package crypto/md5 (RFC 1321) and hexadecimal printing\<close>

text \<open>32-bit words are natural numbers below \<open>2\<^sup>3\<^sup>2\<close>; addition wraps explicitly.\<close>

definition add32 :: "nat \<Rightarrow> nat \<Rightarrow> nat" where
  "add32 a b = (a + b) mod 4294967296"

definition not32 :: "nat \<Rightarrow> nat" where
  "not32 a = 4294967295 - a"

definition rotl32 :: "nat \<Rightarrow> nat \<Rightarrow> nat" where
  "rotl32 x n = (x * 2 ^ n) mod 4294967296 + x div 2 ^ (32 - n)"

definition md5_f :: "nat \<Rightarrow> nat \<Rightarrow> nat \<Rightarrow> nat \<Rightarrow> nat" where
  "md5_f i b c d =
     (if i < 16 then (b AND c) OR (not32 b AND d)
      else if i < 32 then (d AND b) OR (not32 d AND c)
      else if i < 48 then b XOR c XOR d
      else c XOR (b OR not32 d))"

definition md5_g :: "nat \<Rightarrow> nat" where
  "md5_g i =
     (if i < 16 then i
      else if i < 32 then (5 * i + 1) mod 16
      else if i < 48 then (3 * i + 5) mod 16
      else (7 * i) mod 16)"

definition md5_s :: "nat list" where
  "md5_s = [7, 12, 17, 22, 7, 12, 17, 22, 7, 12, 17, 22, 7, 12, 17, 22,
            5, 9, 14, 20, 5, 9, 14, 20, 5, 9, 14, 20, 5, 9, 14, 20,
            4, 11, 16, 23, 4, 11, 16, 23, 4, 11, 16, 23, 4, 11, 16, 23,
            6, 10, 15, 21, 6, 10, 15, 21, 6, 10, 15, 21, 6, 10, 15, 21]"

definition md5_K :: "nat list" where
  "md5_K = [0xd76aa478, 0xe8c7b756, 0x242070db, 0xc1bdceee,
            0xf57c0faf, 0x4787c62a, 0xa8304613, 0xfd469501,
            0x698098d8, 0x8b44f7af, 0xffff5bb1, 0x895cd7be,
            0x6b901122, 0xfd987193, 0xa679438e, 0x49b40821,
            0xf61e2562, 0xc040b340, 0x265e5a51, 0xe9b6c7aa,
            0xd62f105d, 0x02441453, 0xd8a1e681, 0xe7d3fbc8,
            0x21e1cde6, 0xc33707d6, 0xf4d50d87, 0x455a14ed,
            0xa9e3e905, 0xfcefa3f8, 0x676f02d9, 0x8d2a4c8a,
            0xfffa3942, 0x8771f681, 0x6d9d6122, 0xfde5380c,
            0xa4beea44, 0x4bdecfa9, 0xf6bb4b60, 0xbebfbc70,
            0x289b7ec6, 0xeaa127fa, 0xd4ef3085, 0x04881d05,
            0xd9d4d039, 0xe6db99e5, 0x1fa27cf8, 0xc4ac5665,
            0xf4292244, 0x432aff97, 0xab9423a7, 0xfc93a039,
            0x655b59c3, 0x8f0ccc92, 0xffeff47d, 0x85845dd1,
            0x6fa87e4f, 0xfe2ce6e0, 0xa3014314, 0x4e0811a1,
            0xf7537e82, 0xbd3af235, 0x2ad7d2bb, 0xeb86d391]"

type_synonym md5_state = "nat \<times> nat \<times> nat \<times> nat"

fun md5_rounds :: "nat list \<Rightarrow> nat \<Rightarrow> nat list \<Rightarrow> nat list \<Rightarrow> md5_state \<Rightarrow> md5_state" where
  "md5_rounds m i (k # ks) (s # ss) (a, b, c, d) =
     md5_rounds m (i + 1) ks ss
       (d, add32 b (rotl32 (add32 (add32 (add32 a (md5_f i b c d)) k) (m ! md5_g i)) s), b, c)"
| "md5_rounds m i _ _ st = st"

fun le_words :: "nat list \<Rightarrow> nat list" where
  "le_words (b0 # b1 # b2 # b3 # bs) =
     (b0 + 256 * b1 + 65536 * b2 + 16777216 * b3) # le_words bs"
| "le_words _ = []"

definition md5_block :: "md5_state \<Rightarrow> nat list \<Rightarrow> md5_state" where
  "md5_block st blk =
     (case (st, md5_rounds (le_words blk) 0 md5_K md5_s st) of
        ((a0, b0, c0, d0), (a, b, c, d)) \<Rightarrow>
          (add32 a0 a, add32 b0 b, add32 c0 c, add32 d0 d))"

function md5_blocks :: "md5_state \<Rightarrow> nat list \<Rightarrow> md5_state" where
  "md5_blocks st bs =
     (if length bs < 64 then st else md5_blocks (md5_block st (take 64 bs)) (drop 64 bs))"
  by pat_completeness auto
termination
  by (relation "measure (\<lambda>(st, bs). length bs)") auto

declare md5_blocks.simps [simp del]

fun zero_bytes :: "nat \<Rightarrow> nat list" where
  "zero_bytes n = (if n = 0 then [] else 0 # zero_bytes (n - 1))"

declare zero_bytes.simps [simp del]

definition md5_pad :: "nat list \<Rightarrow> nat list" where
  "md5_pad msg =
     (let n = length msg
      in msg @ [128] @ zero_bytes ((119 - n mod 64) mod 64) @
         map (\<lambda>k. (8 * n) div 256 ^ k mod 256) [0, 1, 2, 3, 4, 5, 6, 7])"

definition hex_byte :: "nat \<Rightarrow> string" where
  "hex_byte n = [''0123456789abcdef'' ! (n div 16), ''0123456789abcdef'' ! (n mod 16)]"

definition hex_le32 :: "nat \<Rightarrow> string" where
  "hex_le32 w = hex_byte (w mod 256) @ hex_byte (w div 256 mod 256) @
                hex_byte (w div 65536 mod 256) @ hex_byte (w div 16777216 mod 256)"

text \<open>\<^verbatim>\<open>fmt.Sprintf("%x", md5.Sum([]byte(s)))\<close>: the 32 hexadecimal digits of the digest.\<close>

definition md5_hex :: "string \<Rightarrow> string" where
  "md5_hex msg =
     (case md5_blocks (0x67452301, 0xefcdab89, 0x98badcfe, 0x10325476)
             (md5_pad (map of_char msg)) of
        (a, b, c, d) \<Rightarrow> hex_le32 a @ hex_le32 b @ hex_le32 c @ hex_le32 d)"

subsection \<open>Package encoding/base64, standard encoding\<close>

definition b64_digit :: "nat \<Rightarrow> char" where
  "b64_digit n =
     ''ABCDEFGHIJKLMNOPQRSTUVWXYZabcdefghijklmnopqrstuvwxyz0123456789+/'' ! n"

fun b64_bytes :: "nat list \<Rightarrow> string" where
  "b64_bytes [] = []"
| "b64_bytes [a] = [b64_digit (a div 4), b64_digit (a mod 4 * 16), CHR ''='', CHR ''='']"
| "b64_bytes [a, b] =
     [b64_digit (a div 4), b64_digit (a mod 4 * 16 + b div 16), b64_digit (b mod 16 * 4),
      CHR ''='']"
| "b64_bytes (a # b # c # bs) =
     [b64_digit (a div 4), b64_digit (a mod 4 * 16 + b div 16),
      b64_digit (b mod 16 * 4 + c div 64), b64_digit (c mod 64)] @ b64_bytes bs"

definition EncodeToString :: "string \<Rightarrow> string" where
  "EncodeToString s = b64_bytes (map of_char s)"

subsection \<open>Package regexp: the three expressions of the transformer\<close>

text \<open>The class \<^verbatim>\<open>\s\<close> of Go's regular expressions: tab, line feed, form feed, carriage
  return and space (no vertical tab).\<close>

definition isReSpace :: "char \<Rightarrow> bool" where
  "isReSpace c = (c \<in> set [CHR 0x09, CHR 0x0A, CHR 0x0C, CHR 0x0D, CHR 0x20])"

text \<open>\<^verbatim>\<open>regexp.MustCompile(`^(Re:|RE:|Fwd:|FW:|Fw:)\s*`).ReplaceAllString(subject, "")\<close>:
  the expression is anchored at the start of the text, so at most one match is removed.\<close>

definition prefixes_ReplaceAllString :: "string \<Rightarrow> string" where
  "prefixes_ReplaceAllString subject =
     (case find (HasPrefix subject) [''Re:'', ''RE:'', ''Fwd:'', ''FW:'', ''Fw:''] of
        Some p \<Rightarrow> dropWhile isReSpace (drop (length p) subject)
      | None \<Rightarrow> subject)"

text \<open>\<^verbatim>\<open>regexp.MustCompile(`\s+`).ReplaceAllString(cleaned, " ")\<close>.\<close>

function whitespace_ReplaceAllString :: "string \<Rightarrow> string" where
  "whitespace_ReplaceAllString [] = []"
| "whitespace_ReplaceAllString (c # cs) =
     (if isReSpace c then CHR '' '' # whitespace_ReplaceAllString (dropWhile isReSpace cs)
      else c # whitespace_ReplaceAllString cs)"
  by pat_completeness auto
termination
  by (relation "measure length") (auto simp: le_imp_less_Suc length_dropWhile_le)

text \<open>
  \<^verbatim>\<open>\b[A-Za-z0-9._%+-]+@[A-Za-z0-9.-]+\.[A-Z|a-z]{2,}\b\<close>, matched the way Go does:
  the leftmost match, and among the matches that start there the one a backtracking
  matcher with greedy repetitions finds first.  The local part is the whole run of
  local characters (the next character has to be \<^verbatim>\<open>@\<close>, which is not one); the domain
  ends at the rightmost dot of the run of domain characters after which a top-level
  part of at least two characters ends at a word boundary; that part is the longest
  such.  A match is reported by its length.
\<close>

definition isWordChar :: "char \<Rightarrow> bool" where
  "isWordChar c = (isLetter c \<or> isDigit c \<or> c = CHR ''_'')"

definition isLocalChar :: "char \<Rightarrow> bool" where
  "isLocalChar c = (isLetter c \<or> isDigit c \<or> c \<in> set ''._%+-'')"

definition isDomainChar :: "char \<Rightarrow> bool" where
  "isDomainChar c = (isLetter c \<or> isDigit c \<or> c \<in> set ''.-'')"

definition isTldChar :: "char \<Rightarrow> bool" where
  "isTldChar c = (isLetter c \<or> c = CHR ''|'')"

definition wordBoundary :: "char option \<Rightarrow> char option \<Rightarrow> bool" where
  "wordBoundary prev next =
     ((case prev of None \<Rightarrow> False | Some c \<Rightarrow> isWordChar c) \<noteq>
      (case next of None \<Rightarrow> False | Some c \<Rightarrow> isWordChar c))"

fun tldTry :: "string \<Rightarrow> nat \<Rightarrow> nat option" where
  "tldTry t k =
     (if k < 2 then None
      else if wordBoundary (Some (t ! (k - 1))) (if k < length t then Some (t ! k) else None)
      then Some k
      else tldTry t (k - 1))"

declare tldTry.simps [simp del]

definition tldMatch :: "string \<Rightarrow> nat option" where
  "tldMatch t = tldTry t (length (takeWhile isTldChar t))"

fun domainTry :: "string \<Rightarrow> nat \<Rightarrow> nat option" where
  "domainTry r j =
     (if j = 0 then None
      else if r ! j = CHR ''.''
      then (case tldMatch (drop (j + 1) r) of
              Some k \<Rightarrow> Some (j + 1 + k)
            | None \<Rightarrow> domainTry r (j - 1))
      else domainTry r (j - 1))"

declare domainTry.simps [simp del]

definition domainMatch :: "string \<Rightarrow> nat option" where
  "domainMatch r = domainTry r (length (takeWhile isDomainChar r) - 1)"

definition emailRegex_match :: "char option \<Rightarrow> string \<Rightarrow> nat option" where
  "emailRegex_match prev s =
     (let n = length (takeWhile isLocalChar s)
      in if n = 0 \<or> \<not> wordBoundary prev (Some (s ! 0)) then None
         else if \<not> HasPrefix (drop n s) ''@'' then None
         else map_option (\<lambda>m. n + 1 + m) (domainMatch (drop (n + 1) s)))"

text \<open>\<^verbatim>\<open>emailRegex.ReplaceAllStringFunc(body, repl)\<close>: the matches are found from left to
  right without overlap; \<open>prev\<close> is the character in front of the position where the
  search goes on.\<close>

fun emailRegex_ReplaceAllStringFunc ::
  "(string \<Rightarrow> string) \<Rightarrow> char option \<Rightarrow> string \<Rightarrow> string" where
  "emailRegex_ReplaceAllStringFunc repl prev [] = []"
| "emailRegex_ReplaceAllStringFunc repl prev (c # cs) =
     (case emailRegex_match prev (c # cs) of
        None \<Rightarrow> c # emailRegex_ReplaceAllStringFunc repl (Some c) cs
      | Some n \<Rightarrow>
          repl (take n (c # cs)) @
          emailRegex_ReplaceAllStringFunc repl (Some ((c # cs) ! (n - 1))) (drop (n - 1) cs))"

subsection \<open>Package time\<close>

text \<open>
  A \<^verbatim>\<open>time.Time\<close> is an instant, in nanoseconds since the Unix epoch, with the offset
  of its zone, in seconds east of UTC.  A \<^verbatim>\<open>time.Duration\<close> is a number of nanoseconds
  in a signed 64-bit integer: \<^verbatim>\<open>Sub\<close> saturates at its bounds.  Instants are unbounded
  integers; Go's own representation (64-bit seconds since year 1) holds every instant
  that \<^verbatim>\<open>time.Parse\<close> or \<^verbatim>\<open>time.Now\<close> can produce, shifted by any duration.
\<close>

record Time =
  unixNano :: int
  zoneOffset :: int

definition zeroTime :: Time where
  "zeroTime = \<lparr>unixNano = - 62135596800 * 1000000000, zoneOffset = 0\<rparr>"

definition Add :: "Time \<Rightarrow> int \<Rightarrow> Time" where
  "Add t d = t\<lparr>unixNano := unixNano t + d\<rparr>"

definition Sub :: "Time \<Rightarrow> Time \<Rightarrow> int" where
  "Sub t u = max (- 9223372036854775808) (min 9223372036854775807 (unixNano t - unixNano u))"

definition Before :: "Time \<Rightarrow> Time \<Rightarrow> bool" where
  "Before t u = (unixNano t < unixNano u)"

definition Unix :: "Time \<Rightarrow> int" where
  "Unix t = unixNano t div 1000000000"

definition UnixMilli :: "Time \<Rightarrow> int" where
  "UnixMilli t = unixNano t div 1000000"

text \<open>The proleptic Gregorian calendar: days since 1970-01-01 from a date, whose day may
  lie beyond the end of its month (as \<^verbatim>\<open>time.Date\<close> normalises it), and back.\<close>

definition daysFromCivil :: "int \<Rightarrow> int \<Rightarrow> int \<Rightarrow> int" where
  "daysFromCivil y m d =
     (let y' = (if m \<le> 2 then y - 1 else y);
          era = y' div 400;
          yoe = y' - era * 400;
          doy = (153 * (if m > 2 then m - 3 else m + 9) + 2) div 5 + d - 1;
          doe = yoe * 365 + yoe div 4 - yoe div 100 + doy
      in era * 146097 + doe - 719468)"

definition civilFromDays :: "int \<Rightarrow> int \<times> int \<times> int" where
  "civilFromDays z0 =
     (let z = z0 + 719468;
          era = z div 146097;
          doe = z - era * 146097;
          yoe = (doe - doe div 1460 + doe div 36524 - doe div 146096) div 365;
          doy = doe - (365 * yoe + yoe div 4 - yoe div 100);
          mp = (5 * doy + 2) div 153;
          d = doy - (153 * mp + 2) div 5 + 1;
          m = (if mp < 10 then mp + 3 else mp - 9)
      in (if m \<le> 2 then yoe + era * 400 + 1 else yoe + era * 400, m, d))"

definition localSeconds :: "Time \<Rightarrow> int" where
  "localSeconds t = Unix t + zoneOffset t"

text \<open>\<^verbatim>\<open>t.AddDate(years, 0, 0)\<close>: the same date and clock in another year, normalised.\<close>

definition AddYears :: "Time \<Rightarrow> int \<Rightarrow> Time" where
  "AddYears t years =
     (case civilFromDays (localSeconds t div 86400) of
        (y, m, d) \<Rightarrow>
          t\<lparr>unixNano :=
               ((daysFromCivil (y + years) m d * 86400 + localSeconds t mod 86400
                 - zoneOffset t) * 1000000000
                + unixNano t mod 1000000000)\<rparr>)"

definition padLeft :: "nat \<Rightarrow> string \<Rightarrow> string" where
  "padLeft w s = replicate (w - length s) (CHR ''0'') @ s"

definition appendInt :: "int \<Rightarrow> nat \<Rightarrow> string" where
  "appendInt x w =
     (if x < 0 then CHR ''-'' # padLeft w (showNat (nat (- x))) else padLeft w (showNat (nat x)))"

text \<open>\<^verbatim>\<open>t.Format(time.RFC1123Z)\<close>, the layout \<^verbatim>\<open>Mon, 02 Jan 2006 15:04:05 -0700\<close>.\<close>

definition FormatRFC1123Z :: "Time \<Rightarrow> string" where
  "FormatRFC1123Z t =
     (let secs = localSeconds t;
          days = secs div 86400;
          clock = secs mod 86400;
          zone = (if zoneOffset t < 0 then - ((- zoneOffset t) div 60) else zoneOffset t div 60)
      in case civilFromDays days of
           (y, m, d) \<Rightarrow>
             [''Sun'', ''Mon'', ''Tue'', ''Wed'', ''Thu'', ''Fri'', ''Sat''] ! nat ((days + 4) mod 7) @
             '', '' @ appendInt d 2 @ '' '' @
             [''Jan'', ''Feb'', ''Mar'', ''Apr'', ''May'', ''Jun'',
              ''Jul'', ''Aug'', ''Sep'', ''Oct'', ''Nov'', ''Dec''] ! nat (m - 1) @
             '' '' @ appendInt y 4 @ '' '' @
             appendInt (clock div 3600) 2 @ '':'' @ appendInt (clock mod 3600 div 60) 2 @ '':'' @
             appendInt (clock mod 60) 2 @ '' '' @
             (if zone < 0 then ''-'' else ''+'') @
             appendInt (\<bar>zone\<bar> div 60) 2 @ appendInt (\<bar>zone\<bar> mod 60) 2)"

section \<open>Data model of the transformer\<close>

record Header =
  Name :: string
  Value :: string

record MessageBody =
  Size :: int
  Data :: string

datatype MessagePart = MessagePart
  (PartId: string) (MimeType: string) (Filename: string) (Headers: "Header list")
  (Body: "MessageBody option") (Parts: "MessagePart list")

record MessageRef =
  Id :: string
  ThreadId :: string

record ListMessagesResponse =
  Messages :: "MessageRef list"
  NextPageToken :: string
  ResultSizeEstimate :: int

text \<open>A pointer that may be \<^verbatim>\<open>nil\<close> is an \<^typ>\<open>'a option\<close>.\<close>

record GmailMessage =
  Id :: string
  ThreadId :: string
  LabelIds :: "string list"
  Snippet :: string
  HistoryId :: string
  InternalDate :: string
  SizeEstimate :: int
  Payload :: "MessagePart option"

record EnronEmail =
  MessageID :: string
  Date :: Time
  From :: string
  To :: "string list"
  CC :: "string list"
  BCC :: "string list"
  Subject :: string
  Body :: string
  XFrom :: string
  XTo :: string
  XCC :: string
  XBCC :: string
  XFolder :: string
  XOrigin :: string
  XFileName :: string
  FilePath :: string
  UserFolder :: string

record TestPersona =
  Name :: string
  Email :: string
  Role :: string
  Company :: string
  FirstContact :: Time

record TransformStats =
  TotalProcessed :: int
  TotalTransformed :: int
  Errors :: "string list"
  PersonaMap :: "string \<rightharpoonup> TestPersona"
  ThreadCount :: int

record contact =
  email :: string
  count :: int

record GmailTransformer =
  baseDate :: Time
  timeShift :: int
  threadCache :: "string \<rightharpoonup> string"
  personaMap :: "string \<rightharpoonup> TestPersona"
  messageIDMap :: "string \<rightharpoonup> string"
  userEmail :: string
  enronUserName :: string
  stats :: TransformStats

text \<open>
  What a run depends on besides its input and the program text.  The two calls of
  \<^verbatim>\<open>sort.Slice\<close> are library code whose result, among elements that compare equal,
  is not specified; the order in which \<^verbatim>\<open>range\<close> visits the keys of a map is chosen
  by the Go runtime afresh for every loop.  \<open>rangeContactFreq\<close> is the order in which
  \<^verbatim>\<open>buildPersonaMap\<close> sees the keys of \<^verbatim>\<open>contactFreq\<close> (a list of the keys, each of them
  once), and \<open>rangeReplacements i\<close> the order in which \<^verbatim>\<open>fixEncoding\<close> sees its table
  while record number \<open>i\<close> is transformed.
\<close>

record GoRuntime =
  sortEmails :: "(EnronEmail \<Rightarrow> EnronEmail \<Rightarrow> bool) \<Rightarrow> EnronEmail list \<Rightarrow> EnronEmail list"
  sortContacts :: "(contact \<Rightarrow> contact \<Rightarrow> bool) \<Rightarrow> contact list \<Rightarrow> contact list"
  rangeContactFreq :: "string list"
  rangeReplacements :: "nat \<Rightarrow> (string \<times> string) list"

section \<open>The transformer\<close>

text \<open>\<open>now\<close> is the value of \<^verbatim>\<open>time.Now()\<close>.\<close>

definition NewGmailTransformer :: "Time \<Rightarrow> string \<Rightarrow> string \<Rightarrow> GmailTransformer" where
  "NewGmailTransformer now enronUserName' testUserEmail =
     (let baseDate' = AddYears now (- 3);
          enronStart = \<lparr>unixNano = 946684800 * 1000000000, zoneOffset = 0\<rparr>
      in \<lparr>baseDate = baseDate',
          timeShift = Sub baseDate' enronStart,
          threadCache = Map.empty,
          personaMap = Map.empty,
          messageIDMap = Map.empty,
          userEmail = testUserEmail,
          enronUserName = enronUserName',
          stats = \<lparr>TotalProcessed = 0, TotalTransformed = 0, Errors = [],
                    PersonaMap = Map.empty, ThreadCount = 0\<rparr>\<rparr>)"

text \<open>\<open>timeParse layout value\<close> is \<^verbatim>\<open>time.Parse\<close>, with \<^term>\<open>Inl\<close> for its error.\<close>

definition formats :: "string list" where
  "formats =
     [''Mon, 02 Jan 2006 15:04:05 -0700'',
      ''Mon, 02 Jan 2006 15:04:05 MST'',
      ''Mon, 2 Jan 2006 15:04:05 -0700 (MST)'',
      ''Mon, 2 Jan 2006 15:04:05 -0700'',
      ''2 Jan 2006 15:04:05 -0700'']"

fun parseEnronDate_loop ::
  "(string \<Rightarrow> string \<Rightarrow> string + Time) \<Rightarrow> Time \<Rightarrow> string list \<Rightarrow> string \<Rightarrow> Time" where
  "parseEnronDate_loop timeParse now [] dateStr = now"
| "parseEnronDate_loop timeParse now (format # rest) dateStr =
     (case timeParse format dateStr of
        Inr t \<Rightarrow> t
      | Inl err \<Rightarrow> parseEnronDate_loop timeParse now rest dateStr)"

definition parseEnronDate ::
  "(string \<Rightarrow> string \<Rightarrow> string + Time) \<Rightarrow> Time \<Rightarrow> string \<Rightarrow> Time" where
  "parseEnronDate timeParse now dateStr = parseEnronDate_loop timeParse now formats dateStr"

definition extractEmail :: "string \<Rightarrow> string" where
  "extractEmail address =
     (let plain = (if Contains address ''@'' then ToLower (TrimSpace address) else [])
      in case Index address ''<'' of
           None \<Rightarrow> plain
         | Some idx \<Rightarrow>
             (case Index (drop idx address) ''>'' of
                None \<Rightarrow> plain
              | Some endIdx \<Rightarrow>
                  if endIdx > 0 then ToLower (take (endIdx - 1) (drop (idx + 1) address))
                  else plain))"

definition generateNameFromEmail :: "string \<Rightarrow> string" where
  "generateNameFromEmail addr =
     (case Split addr ''@'' of
        [] \<Rightarrow> ''Unknown''
      | name # _ \<Rightarrow> Title (ReplaceAll (ReplaceAll (ReplaceAll name ''.'' '' '') ''_'' '' '') ''-'' '' ''))"

text \<open>Called on the four service addresses only; each of them has an \<^verbatim>\<open>@\<close>, so the
  indices are in range.\<close>

definition extractServiceName :: "string \<Rightarrow> string" where
  "extractServiceName addr = Title (Split (Split addr ''@'' ! 1) ''.'' ! 0)"

definition generateGmailID :: "string \<Rightarrow> string" where
  "generateGmailID enronMessageID = take 16 (md5_hex enronMessageID)"

definition generateThreadID :: "string \<Rightarrow> string" where
  "generateThreadID key = take 16 (md5_hex (''thread:'' @ key))"

subsection \<open>Persona assignment\<close>

text \<open>\<^verbatim>\<open>contactFreq[addr]++\<close> under the guard of \<^verbatim>\<open>buildPersonaMap\<close>; a key that is absent
  reads as zero.\<close>

definition countAddress :: "string \<Rightarrow> (string \<rightharpoonup> int) \<Rightarrow> string \<Rightarrow> (string \<rightharpoonup> int)" where
  "countAddress user freq address =
     (let addr = extractEmail address
      in if addr \<noteq> [] \<and> \<not> Contains addr user
         then freq(addr \<mapsto> (case freq addr of None \<Rightarrow> 0 | Some n \<Rightarrow> n) + 1)
         else freq)"

text \<open>The first loop of \<^verbatim>\<open>buildPersonaMap\<close>: the sender, then the entries of \<^verbatim>\<open>To\<close>.\<close>

definition contactFreq :: "string \<Rightarrow> EnronEmail list \<Rightarrow> (string \<rightharpoonup> int)" where
  "contactFreq user emails =
     foldl (\<lambda>freq e. foldl (countAddress user) (countAddress user freq (From e)) (To e))
       Map.empty emails"

definition personas :: "TestPersona list" where
  "personas =
     [\<lparr>Name = ''Sarah Chen'', Email = ''sarah.chen@gmail.com'', Role = ''sister'',
       Company = [], FirstContact = zeroTime\<rparr>,
      \<lparr>Name = ''David Kumar'', Email = ''david.kumar@techcorp.com'', Role = ''manager'',
       Company = ''TechCorp'', FirstContact = zeroTime\<rparr>,
      \<lparr>Name = ''Alex Rivera'', Email = ''alex.r@gmail.com'', Role = ''best friend'',
       Company = [], FirstContact = zeroTime\<rparr>,
      \<lparr>Name = ''Lisa Thompson'', Email = ''lisa.t@techcorp.com'', Role = ''colleague'',
       Company = ''TechCorp'', FirstContact = zeroTime\<rparr>,
      \<lparr>Name = ''Mom'', Email = ''mom.wilson@yahoo.com'', Role = ''family'',
       Company = [], FirstContact = zeroTime\<rparr>,
      \<lparr>Name = ''Jamie Park'', Email = ''jamiepark92@gmail.com'', Role = ''friend'',
       Company = [], FirstContact = zeroTime\<rparr>,
      \<lparr>Name = ''Michael Chen'', Email = ''m.chen@techcorp.com'', Role = ''colleague'',
       Company = ''TechCorp'', FirstContact = zeroTime\<rparr>,
      \<lparr>Name = ''Emma Davis'', Email = ''emma.davis@gmail.com'', Role = ''friend'',
       Company = [], FirstContact = zeroTime\<rparr>,
      \<lparr>Name = ''Robert Johnson'', Email = ''rjohnson@partnerco.com'', Role = ''client'',
       Company = ''PartnerCo'', FirstContact = zeroTime\<rparr>,
      \<lparr>Name = ''Jessica Lee'', Email = ''jlee@techcorp.com'', Role = ''colleague'',
       Company = ''TechCorp'', FirstContact = zeroTime\<rparr>]"

definition serviceEmails :: "string list" where
  "serviceEmails =
     [''notifications@github.com'', ''no-reply@linkedin.com'', ''united@united.com'',
      ''alerts@mint.com'']"

fun assignPersonas_loop ::
  "nat \<Rightarrow> contact list \<Rightarrow> (string \<rightharpoonup> TestPersona) \<Rightarrow> (string \<rightharpoonup> TestPersona)" where
  "assignPersonas_loop i [] pm = pm"
| "assignPersonas_loop i (c # cs) pm =
     assignPersonas_loop (i + 1) cs
       (if i \<ge> length personas
        then pm(email c \<mapsto>
               \<lparr>Name = generateNameFromEmail (email c),
                Email = ''contact'' @ showNat i @ ''@example.com'',
                Role = ''acquaintance'', Company = [], FirstContact = zeroTime\<rparr>)
        else pm(email c \<mapsto> personas ! i))"

definition assignPersonas :: "GmailTransformer \<Rightarrow> contact list \<Rightarrow> GmailTransformer" where
  "assignPersonas t contacts =
     t\<lparr>personaMap :=
         foldl (\<lambda>pm addr. pm(addr \<mapsto>
                  \<lparr>Name = extractServiceName addr, Email = addr, Role = ''service'',
                   Company = [], FirstContact = zeroTime\<rparr>))
           (assignPersonas_loop 0 contacts (personaMap t)) serviceEmails\<rparr>"

definition buildPersonaMap ::
  "GoRuntime \<Rightarrow> GmailTransformer \<Rightarrow> EnronEmail list \<Rightarrow> GmailTransformer" where
  "buildPersonaMap rt t emails =
     (let freq = contactFreq (enronUserName t) emails;
          contacts = List.map_filter
            (\<lambda>k. map_option (\<lambda>n. \<lparr>email = k, count = n\<rparr>) (freq k)) (rangeContactFreq rt)
      in assignPersonas t (sortContacts rt (\<lambda>a b. count a > count b) contacts))"

subsection \<open>Headers\<close>

definition transformEmailAddress :: "GmailTransformer \<Rightarrow> string \<Rightarrow> string" where
  "transformEmailAddress t enronEmail =
     (let cleaned = extractEmail enronEmail
      in if Contains cleaned (enronUserName t) then ''You'' @ '' <'' @ userEmail t @ ''>''
         else case personaMap t cleaned of
                Some persona \<Rightarrow> Name persona @ '' <'' @ Email persona @ ''>''
              | None \<Rightarrow>
                  (let name = generateNameFromEmail cleaned;
                       domain = (if Contains cleaned ''@''
                                    \<and> Split cleaned ''@'' ! 1 \<noteq> ''enron.com''
                                 then Split cleaned ''@'' ! 1 else ''example.com'')
                   in name @ '' <'' @ ToLower name @ ''@'' @ domain @ ''>''))"

definition transformEmailList :: "GmailTransformer \<Rightarrow> string list \<Rightarrow> string" where
  "transformEmailList t emails = Join (map (transformEmailAddress t) emails) '', ''"

definition transformHeaders :: "GmailTransformer \<Rightarrow> EnronEmail \<Rightarrow> Header list" where
  "transformHeaders t enron =
     [\<lparr>Header.Name = ''From'', Value = transformEmailAddress t (From enron)\<rparr>] @
     (if length (To enron) > 0
      then [\<lparr>Header.Name = ''To'', Value = transformEmailList t (To enron)\<rparr>] else []) @
     (if length (CC enron) > 0
      then [\<lparr>Header.Name = ''Cc'', Value = transformEmailList t (CC enron)\<rparr>] else []) @
     [\<lparr>Header.Name = ''Subject'', Value = Subject enron\<rparr>,
      \<lparr>Header.Name = ''Date'', Value = FormatRFC1123Z (Add (Date enron) (timeShift t))\<rparr>,
      \<lparr>Header.Name = ''Message-ID'',
       Value = ''<'' @ generateGmailID (MessageID enron) @ ''@mail.gmail.com>''\<rparr>]"

subsection \<open>Threads\<close>

definition cleanSubjectForThreading :: "string \<Rightarrow> string" where
  "cleanSubjectForThreading subject = ToLower (TrimSpace (prefixes_ReplaceAllString subject))"

definition threadKey :: "EnronEmail \<Rightarrow> string" where
  "threadKey enron =
     (let subject = cleanSubjectForThreading (Subject enron);
          participants = sortStrings (From enron # To enron);
          participants' = (if length participants > 3 then take 3 participants
                           else participants)
      in subject @ ''|'' @ Join participants' '','')"

definition getOrCreateThreadID :: "GmailTransformer \<Rightarrow> EnronEmail \<Rightarrow> string \<times> GmailTransformer" where
  "getOrCreateThreadID t enron =
     (case threadCache t (threadKey enron) of
        Some threadID \<Rightarrow> (threadID, t)
      | None \<Rightarrow>
          (let threadID = generateThreadID (threadKey enron)
           in (threadID, t\<lparr>threadCache := (threadCache t)(threadKey enron \<mapsto> threadID)\<rparr>)))"

subsection \<open>Labels\<close>

definition isImportant :: "EnronEmail \<Rightarrow> bool" where
  "isImportant enron =
     (let subject = ToLower (Subject enron);
          body = ToLower (Body enron)
      in list_ex (\<lambda>pattern. Contains subject pattern
                              \<or> Contains (take (min 200 (length body)) body) pattern)
           [''urgent'', ''asap'', ''important'', ''critical'',
            ''action required'', ''deadline'', ''immediate'',
            ''confidential'', ''board meeting'', ''executive'']
         \<or> Contains (From enron) ''gibner''
         \<or> Contains (From enron) ''buy''
         \<or> Contains (From enron) ''lay'')"

definition isPromotional :: "EnronEmail \<Rightarrow> bool" where
  "isPromotional enron =
     (let content = ToLower (Subject enron @ '' '' @ Body enron)
      in list_ex (Contains content)
           [''unsubscribe'', ''click here'', ''special offer'',
            ''deal'', ''discount'', ''sale'', ''free shipping'',
            ''act now'', ''limited time''])"

definition isAutomated :: "EnronEmail \<Rightarrow> bool" where
  "isAutomated enron =
     list_ex (Contains (ToLower (From enron)))
       [''no-reply'', ''noreply'', ''donotreply'',
        ''notification'', ''alert'', ''system'',
        ''automated'', ''mailman'', ''listserv'']"

definition inferLabels :: "GmailTransformer \<Rightarrow> EnronEmail \<Rightarrow> string list" where
  "inferLabels t enron =
     (let folder = ToLower (UserFolder enron)
      in [''UNREAD''] @
         (if Contains (From enron) (enronUserName t) then [''SENT''] else [''INBOX'']) @
         (if Contains folder ''trash'' \<or> Contains folder ''deleted'' then [''TRASH'']
          else if Contains folder ''personal'' then [''CATEGORY_PERSONAL'']
          else if Contains folder ''travel'' then [''Label_Travel'']
          else if Contains folder ''conferences'' \<or> Contains folder ''meetings''
          then [''Label_Meetings'']
          else []) @
         (if isImportant enron then [''IMPORTANT''] else []) @
         (if isPromotional enron then [''CATEGORY_PROMOTIONS'']
          else if isAutomated enron then [''CATEGORY_UPDATES'']
          else []))"

subsection \<open>Snippet and body\<close>

fun generateSnippet_loop :: "string \<Rightarrow> string list \<Rightarrow> string" where
  "generateSnippet_loop snippet [] = snippet"
| "generateSnippet_loop snippet (line # rest) =
     (if HasPrefix line ''>'' \<or> Contains line ''-----Original Message-----'' then snippet
      else if length (snippet @ line @ '' '') > 100 then snippet @ line @ '' ''
      else generateSnippet_loop (snippet @ line @ '' '') rest)"

definition generateSnippet :: "string \<Rightarrow> string" where
  "generateSnippet body =
     (let cleaned = whitespace_ReplaceAllString (TrimSpace body);
          snippet = generateSnippet_loop [] (Split cleaned [CHR 0x0A])
      in TrimSpace (if length snippet > 100 then take 97 snippet @ ''...'' else snippet))"

definition replacements :: "(string \<times> string) list" where
  "replacements =
     [(''=20'', '' ''), (''=09'', [CHR 0x09]), (''=0A'', [CHR 0x0A]), (''=0D'', [CHR 0x0D]),
      (''=3D'', ''=''), (''&amp;'', ''&''), (''&lt;'', ''<''), (''&gt;'', ''>'')]"

text \<open>\<open>order\<close> is \<^term>\<open>replacements\<close> in the order in which \<^verbatim>\<open>range\<close> visits it.\<close>

definition fixEncoding :: "(string \<times> string) list \<Rightarrow> string \<Rightarrow> string" where
  "fixEncoding order text = foldl (\<lambda>txt (old, new). ReplaceAll txt old new) text order"

text \<open>The function literal that \<^verbatim>\<open>transformBody\<close> applies to every address in the body.\<close>

definition transformBody_repl :: "GmailTransformer \<Rightarrow> string \<Rightarrow> string" where
  "transformBody_repl t addr =
     (let cleaned = ToLower addr
      in if Contains cleaned (enronUserName t) then userEmail t
         else case personaMap t cleaned of
                Some persona \<Rightarrow> Email persona
              | None \<Rightarrow> addr)"

definition transformBody :: "(string \<times> string) list \<Rightarrow> GmailTransformer \<Rightarrow> string \<Rightarrow> string" where
  "transformBody order t body =
     ReplaceAll
       (ReplaceAll
          (emailRegex_ReplaceAllStringFunc (transformBody_repl t) None (fixEncoding order body))
          ''Enron'' ''TechCorp'')
       ''ENRON'' ''TECHCORP''"

subsection \<open>One record, and the whole data set\<close>

text \<open>\<^verbatim>\<open>transformEmail\<close> returns a message and an error; the error is \<^term>\<open>Inl\<close>.  \<open>order\<close>
  is the order of the replacement table during this call.\<close>

definition transformEmail ::
  "(string \<times> string) list \<Rightarrow> GmailTransformer \<Rightarrow> EnronEmail
     \<Rightarrow> (string + GmailMessage) \<times> GmailTransformer" where
  "transformEmail order t enron =
     (let gmailID = generateGmailID (MessageID enron);
          t1 = t\<lparr>messageIDMap := (messageIDMap t)(MessageID enron \<mapsto> gmailID)\<rparr>;
          headers = transformHeaders t1 enron;
          (threadID, t2) = getOrCreateThreadID t1 enron;
          body = transformBody order t2 (Body enron);
          payload = MessagePart [] ''text/plain'' [] headers
                      (Some \<lparr>Size = int (length body), Data = EncodeToString body\<rparr>) [];
          labels = inferLabels t2 enron;
          shiftedDate = Add (Date enron) (timeShift t2)
      in (Inr \<lparr>GmailMessage.Id = gmailID,
                ThreadId = threadID,
                LabelIds = labels,
                Snippet = generateSnippet body,
                HistoryId = showInt (Unix shiftedDate),
                InternalDate = showInt (UnixMilli shiftedDate),
                SizeEstimate = int (length (Body enron)) + 512,
                Payload = Some payload\<rparr>, t2))"

fun TransformDataset_loop ::
  "GoRuntime \<Rightarrow> nat \<Rightarrow> EnronEmail list \<Rightarrow> GmailTransformer \<Rightarrow> GmailMessage list
     \<Rightarrow> GmailMessage list \<times> GmailTransformer" where
  "TransformDataset_loop rt i [] t gmailMessages = (gmailMessages, t)"
| "TransformDataset_loop rt i (enron # rest) t gmailMessages =
     (let t1 = t\<lparr>stats := (stats t)\<lparr>TotalProcessed := TotalProcessed (stats t) + 1\<rparr>\<rparr>
      in case transformEmail (rangeReplacements rt i) t1 enron of
           (Inl err, t2) \<Rightarrow>
             TransformDataset_loop rt (i + 1) rest
               (t2\<lparr>stats := (stats t2)\<lparr>Errors := Errors (stats t2) @
                  [''Error transforming '' @ MessageID enron @ '': '' @ err]\<rparr>\<rparr>)
               gmailMessages
         | (Inr gmail, t2) \<Rightarrow>
             TransformDataset_loop rt (i + 1) rest
               (t2\<lparr>stats := (stats t2)\<lparr>TotalTransformed := TotalTransformed (stats t2) + 1\<rparr>\<rparr>)
               (gmailMessages @ [gmail]))"

definition TransformDataset ::
  "GoRuntime \<Rightarrow> GmailTransformer \<Rightarrow> EnronEmail list \<Rightarrow> GmailMessage list \<times> GmailTransformer" where
  "TransformDataset rt t emails =
     (let sorted = sortEmails rt (\<lambda>a b. Before (Date a) (Date b)) emails;
          t1 = buildPersonaMap rt t sorted;
          (gmailMessages, t2) = TransformDataset_loop rt 0 sorted t1 []
      in (gmailMessages,
          t2\<lparr>stats := (stats t2)\<lparr>ThreadCount := int (card (dom (threadCache t2))),
                                  PersonaMap := personaMap t2\<rparr>\<rparr>))"

section \<open>Writing the test fixtures\<close>

text \<open>
  The untyped map that \<^verbatim>\<open>GenerateTestData\<close> marshals as metadata is a record here, and
  an artifact is kept as the value that is marshalled, not as its JSON text.
  \<^verbatim>\<open>json.MarshalIndent\<close> cannot fail on these values (strings, integers, slices and maps
  with string keys), so its three error branches have no counterpart.
\<close>

record Metadata =
  totalMessages :: int
  dateRange_start :: string
  dateRange_end :: string
  labelDistribution :: "string \<rightharpoonup> int"
  threadCount :: int

datatype artifact =
  MessagesJSON "GmailMessage list"
| ListJSON ListMessagesResponse
| MetadataJSON Metadata

text \<open>The operating system: whether \<^verbatim>\<open>os.MkdirAll\<close> and \<^verbatim>\<open>ioutil.WriteFile\<close> succeed on a
  path (\<^term>\<open>None\<close>) or fail with an error.\<close>

record OS =
  MkdirAll :: "string \<Rightarrow> string option"
  WriteFile :: "string \<Rightarrow> string option"

text \<open>A call ends by returning its error value (\<^term>\<open>None\<close> is \<^verbatim>\<open>nil\<close>) or by a run-time
  panic.\<close>

datatype outcome = Returned "string option" | Panicked string

text \<open>\<^verbatim>\<open>filepath.Join\<close> on a directory and a file name (without the cleaning of the path).\<close>

definition filepathJoin :: "string \<Rightarrow> string \<Rightarrow> string" where
  "filepathJoin dir name = dir @ ''/'' @ name"

definition getLabelDistribution :: "GmailMessage list \<Rightarrow> (string \<rightharpoonup> int)" where
  "getLabelDistribution messages =
     foldl (\<lambda>dist msg.
              foldl (\<lambda>dist label. dist(label \<mapsto> (case dist label of None \<Rightarrow> 0 | Some n \<Rightarrow> n) + 1))
                dist (LabelIds msg))
       Map.empty messages"

definition getThreadCount :: "GmailMessage list \<Rightarrow> int" where
  "getThreadCount messages = int (card (set (map GmailMessage.ThreadId messages)))"

text \<open>\<^verbatim>\<open>messages[i].Payload.Headers[4].Value\<close>: an index out of range and a \<^verbatim>\<open>nil\<close> payload
  panic.\<close>

definition dateHeaderValue :: "GmailMessage list \<Rightarrow> int \<Rightarrow> string + string" where
  "dateHeaderValue messages i =
     (if i < 0 \<or> i \<ge> int (length messages) then Inl ''index out of range''
      else case Payload (messages ! nat i) of
             None \<Rightarrow> Inl ''nil pointer dereference''
           | Some payload \<Rightarrow>
               if 4 \<ge> length (Headers payload) then Inl ''index out of range''
               else Inr (Value (Headers payload ! 4)))"

definition GenerateTestData ::
  "OS \<Rightarrow> GmailMessage list \<Rightarrow> string \<Rightarrow> (string \<times> artifact) list \<times> outcome" where
  "GenerateTestData os messages outputDir =
     (case MkdirAll os outputDir of
        Some err \<Rightarrow> ([], Returned (Some (''create output dir: '' @ err)))
      | None \<Rightarrow>
     (let messagesFile = filepathJoin outputDir ''gmail_messages.json''
      in case WriteFile os messagesFile of
        Some err \<Rightarrow> ([], Returned (Some (''write messages: '' @ err)))
      | None \<Rightarrow>
     (let written1 = [(messagesFile, MessagesJSON messages)];
          messageRefs = map (\<lambda>msg. \<lparr>MessageRef.Id = GmailMessage.Id msg,
                                     ThreadId = GmailMessage.ThreadId msg\<rparr>) messages;
          listResponse = \<lparr>Messages = messageRefs, NextPageToken = [],
                          ResultSizeEstimate = int (length messages)\<rparr>;
          listFile = filepathJoin outputDir ''list_messages_response.json''
      in case WriteFile os listFile of
        Some err \<Rightarrow> (written1, Returned (Some (''write list response: '' @ err)))
      | None \<Rightarrow>
     (let written2 = written1 @ [(listFile, ListJSON listResponse)]
      in case dateHeaderValue messages 0 of
        Inl p \<Rightarrow> (written2, Panicked p)
      | Inr start \<Rightarrow>
     (case dateHeaderValue messages (int (length messages) - 1) of
        Inl p \<Rightarrow> (written2, Panicked p)
      | Inr end' \<Rightarrow>
     (let metadata = \<lparr>totalMessages = int (length messages),
                      dateRange_start = start,
                      dateRange_end = end',
                      labelDistribution = getLabelDistribution messages,
                      threadCount = getThreadCount messages\<rparr>;
          metaFile = filepathJoin outputDir ''test_metadata.json''
      in case WriteFile os metaFile of
        Some err \<Rightarrow> (written2, Returned (Some (''write metadata: '' @ err)))
      | None \<Rightarrow> (written2 @ [(metaFile, MetadataJSON metadata)], Returned None)))))))"

section \<open>Invariants of a run\<close>

text \<open>The counters hold, for every address that the guard lets through, the number of
  its occurrences in the list \<open>occ\<close> of addresses seen so far.\<close>

definition counted :: "string \<Rightarrow> string list \<Rightarrow> (string \<rightharpoonup> int) \<Rightarrow> bool" where
  "counted user occ freq =
     (\<forall>a. freq a = (if a \<noteq> [] \<and> \<not> Contains a user \<and> a \<in> set occ
                    then Some (int (count_list occ a)) else None))"

text \<open>Every entry of the thread cache is the hash of its key.\<close>

definition cache_ok :: "GmailTransformer \<Rightarrow> bool" where
  "cache_ok t = (\<forall>k v. threadCache t k = Some v \<longrightarrow> v = generateThreadID k)"

text \<open>Two states of the transformer rewrite addresses and dates in the same way.\<close>

definition same_identity :: "GmailTransformer \<Rightarrow> GmailTransformer \<Rightarrow> bool" where
  "same_identity t' t =
     (personaMap t' = personaMap t \<and> timeShift t' = timeShift t \<and>
      userEmail t' = userEmail t \<and> enronUserName t' = enronUserName t)"

section \<open>Example inputs\<close>

text \<open>Two message bodies of 250 characters each: a note in running text, and a table
  whose columns are aligned with blanks.\<close>

definition budget_note :: string where
  "budget_note =
     ''Vince, attached is the revised budget for the research group. '' @
     ''Please review the headcount numbers for next quarter and let me '' @
     ''know whether the travel line should stay flat or move with the new '' @
     ''hires. I need your sign off by Friday so we can close it.''"

definition deal_table :: string where
  "deal_table =
     ''Deal        Volume      Price       Term         \<newline>'' @
     ''NG-1        10000       2.95        Jun01        \<newline>'' @
     ''NG-2        5000        3.10        Jul01        \<newline>'' @
     ''PWR         250         41.00       Q3           \<newline>'' @
     ''Total       15250                                \<newline>''"

text \<open>
  The owner of the mailbox is \<^verbatim>\<open>kaminski-v\<close>, so the owner fragment is \<^verbatim>\<open>kaminski\<close>; the
  run starts on 13 July 2025 at noon, UTC.  Three records: the owner writes to Alice
  and Bob about the budget, Alice answers, and Carol sends meeting notes.
\<close>

definition run_start :: Time where
  "run_start = \<lparr>unixNano = 1752408000 * 1000000000, zoneOffset = 0\<rparr>"

definition new_transformer :: GmailTransformer where
  "new_transformer = NewGmailTransformer run_start ''kaminski'' ''test@example.com''"

definition blank_email :: EnronEmail where
  "blank_email =
     \<lparr>MessageID = [], Date = zeroTime, From = [], To = [], CC = [], BCC = [], Subject = [],
      Body = [], XFrom = [], XTo = [], XCC = [], XBCC = [], XFolder = [], XOrigin = [],
      XFileName = [], FilePath = [], UserFolder = []\<rparr>"

definition budget_mail :: EnronEmail where
  "budget_mail = blank_email
     \<lparr>MessageID := ''<1001.JavaMail.evans@thyme>'',
      Date := \<lparr>unixNano = 989859600 * 1000000000, zoneOffset = - 25200\<rparr>,
      From := ''vince.kaminski@enron.com'',
      To := [''alice.adams@enron.com'', ''bob.brown@enron.com''],
      Subject := ''Budget'',
      Body := ''Please send me your numbers.'',
      UserFolder := ''sent_items''\<rparr>"

definition budget_reply :: EnronEmail where
  "budget_reply = blank_email
     \<lparr>MessageID := ''<1002.JavaMail.evans@thyme>'',
      Date := \<lparr>unixNano = 989863200 * 1000000000, zoneOffset = - 25200\<rparr>,
      From := ''alice.adams@enron.com'',
      To := [''vince.kaminski@enron.com''],
      Subject := ''Re: Budget'',
      Body := ''Numbers attached.'',
      UserFolder := ''inbox''\<rparr>"

definition meeting_notes :: EnronEmail where
  "meeting_notes = blank_email
     \<lparr>MessageID := ''<1003.JavaMail.evans@thyme>'',
      Date := \<lparr>unixNano = 989946000 * 1000000000, zoneOffset = - 25200\<rparr>,
      From := ''carol.clark@enron.com'',
      To := [''vince.kaminski@enron.com''],
      Subject := ''Meeting notes'',
      Body := ''Notes from today.'',
      UserFolder := ''inbox''\<rparr>"

text \<open>The owner writes to Alice with a copy to Dave and a blind copy to Erin, and
  names Dave in the text.\<close>

definition copied_mail :: EnronEmail where
  "copied_mail = blank_email
     \<lparr>MessageID := ''<1004.JavaMail.evans@thyme>'',
      Date := \<lparr>unixNano = 990032400 * 1000000000, zoneOffset = - 25200\<rparr>,
      From := ''vince.kaminski@enron.com'',
      To := [''alice.adams@enron.com''],
      CC := [''dave.smith@enron.com''],
      BCC := [''erin.jones@enron.com''],
      Subject := ''Forecast'',
      Body := ''Ask dave.smith@enron.com for the file.'',
      UserFolder := ''sent_items''\<rparr>"

text \<open>A note that the owner files without recipients.\<close>

definition draft_note :: EnronEmail where
  "draft_note = blank_email
     \<lparr>MessageID := ''<1005.JavaMail.evans@thyme>'',
      Date := \<lparr>unixNano = 990118800 * 1000000000, zoneOffset = - 25200\<rparr>,
      From := ''vince.kaminski@enron.com'',
      Subject := ''Reminder'',
      Body := ''Call the auditors.'',
      UserFolder := ''personal''\<rparr>"

text \<open>A run on a slice of at most twelve records and contacts: both sorts are insertion
  sorts; \<open>order\<close> is the order in which the keys of \<^verbatim>\<open>contactFreq\<close> are visited, and the
  replacement table is visited in the order of the source text.\<close>

definition small_run :: "string list \<Rightarrow> GoRuntime" where
  "small_run order =
     \<lparr>sortEmails = insertionSort, sortContacts = insertionSort,
      rangeContactFreq = order, rangeReplacements = (\<lambda>i. replacements)\<rparr>"

text \<open>A stand-in for \<^verbatim>\<open>time.Parse\<close> that knows one date of the corpus: the value has a
  zone name in parentheses, which only the third layout accepts.\<close>

definition timeParse_sample :: "string \<Rightarrow> string \<Rightarrow> string + Time" where
  "timeParse_sample layout value =
     (if layout = ''Mon, 2 Jan 2006 15:04:05 -0700 (MST)''
         \<and> value = ''Mon, 14 May 2001 10:00:00 -0700 (PDT)''
      then Inr \<lparr>unixNano = 989859600 * 1000000000, zoneOffset = - 25200\<rparr>
      else Inl ''parsing time: cannot parse'')"

text \<open>An operating system on which every directory can be made and every file
  written.\<close>

definition os_ok :: OS where
  "os_ok = \<lparr>MkdirAll = (\<lambda>path. None), WriteFile = (\<lambda>path. None)\<rparr>"

section \<open>Properties\<close>

subsection \<open>Subject normalisation\<close>

lemma isReSpace_isSpace: "isReSpace c \<Longrightarrow> isSpace c"
  by (auto simp: isReSpace_def isSpace_def)

lemma dropWhile_isSpace_isReSpace:
  "dropWhile isSpace (dropWhile isReSpace s) = dropWhile isSpace s"
  by (induction s) (auto simp: isReSpace_isSpace)

lemma TrimSpace_dropWhile_isReSpace: "TrimSpace (dropWhile isReSpace s) = TrimSpace s"
  by (simp add: TrimSpace_def dropWhile_isSpace_isReSpace)

lemma prefixes_ReplaceAllString_listed:
  "p \<in> set [''Re:'', ''RE:'', ''Fwd:'', ''FW:'', ''Fw:'']
   \<Longrightarrow> prefixes_ReplaceAllString (p @ s) = dropWhile isReSpace s"
  by (auto simp: prefixes_ReplaceAllString_def)

text \<open>
  C4 (as the code has it).  The expression lists five spellings, \<^verbatim>\<open>Re:\<close>, \<^verbatim>\<open>RE:\<close>,
  \<^verbatim>\<open>Fwd:\<close>, \<^verbatim>\<open>FW:\<close> and \<^verbatim>\<open>Fw:\<close>, and it is case-sensitive.  A subject that starts
  with one of the five is normalised to the trimmed, lower-cased rest.
\<close>

theorem C4_listed_prefix_stripped:
  "p \<in> set [''Re:'', ''RE:'', ''Fwd:'', ''FW:'', ''Fw:'']
   \<Longrightarrow> cleanSubjectForThreading (p @ s) = ToLower (TrimSpace s)"
  by (simp only: cleanSubjectForThreading_def prefixes_ReplaceAllString_listed
        TrimSpace_dropWhile_isReSpace)

theorem C4_listed_prefix_stripped_witness:
  "''Fwd:'' \<in> set [''Re:'', ''RE:'', ''Fwd:'', ''FW:'', ''Fw:''] \<and>
   cleanSubjectForThreading (''Fwd:'' @ ''  Budget review '') = ''budget review''"
  using C4_listed_prefix_stripped [of "''Fwd:''" "''  Budget review ''"]
  by (simp add: ToLower_def toLowerChar_def TrimSpace_def isSpace_def)

text \<open>
  C4 as the specification states it fails: the spelling \<^verbatim>\<open>re:\<close> is not in the list, so
  \<^verbatim>\<open>re: Budget\<close> keeps its prefix and does not normalise to the same text as \<^verbatim>\<open>Budget\<close>.
\<close>

theorem C4_lower_case_prefix_kept:
  "cleanSubjectForThreading ''re: Budget'' = ''re: budget'' \<and>
   cleanSubjectForThreading ''Budget'' = ''budget'' \<and>
   cleanSubjectForThreading ''re: Budget'' \<noteq> cleanSubjectForThreading ''Budget''"
  by (simp add: cleanSubjectForThreading_def prefixes_ReplaceAllString_def ToLower_def
        toLowerChar_def TrimSpace_def isSpace_def)

subsection \<open>Snippets\<close>

lemma whitespace_no_newline: "CHR 0x0A \<notin> set (whitespace_ReplaceAllString s)"
  by (induction s rule: whitespace_ReplaceAllString.induct) (auto simp: isReSpace_def)

lemma splitFrom_absent: "c \<notin> set s \<Longrightarrow> splitFrom [c] acc s = [rev acc @ s]"
  by (induction s arbitrary: acc) auto

lemma Split_absent: "c \<notin> set s \<Longrightarrow> Split s [c] = [s]"
  by (simp add: Split_def splitFrom_absent)

lemma TrimSpace_prefix: "\<exists>ws. dropWhile isSpace b = TrimSpace b @ ws"
proof -
  have "rev (rev (dropWhile isSpace b)) =
        rev (takeWhile isSpace (rev (dropWhile isSpace b)) @
             dropWhile isSpace (rev (dropWhile isSpace b)))"
    by simp
  then show ?thesis
    unfolding TrimSpace_def rev_append rev_rev_ident by blast
qed

lemma hd_TrimSpace:
  assumes ne: "TrimSpace b \<noteq> []"
  shows "\<not> isSpace (hd (TrimSpace b))"
proof -
  obtain ws where eq: "dropWhile isSpace b = TrimSpace b @ ws"
    using TrimSpace_prefix by blast
  then have "dropWhile isSpace b \<noteq> []" using ne by simp
  then have "\<not> isSpace (hd (dropWhile isSpace b))" by (rule hd_dropWhile)
  then show ?thesis using eq ne by simp
qed

lemma hd_whitespace:
  "s \<noteq> [] \<Longrightarrow> \<not> isSpace (hd s) \<Longrightarrow> hd (whitespace_ReplaceAllString s) = hd s"
  by (cases s) (auto dest: isReSpace_isSpace)

lemma TrimSpace_id:
  assumes ne: "s \<noteq> []" and h: "\<not> isSpace (hd s)" and l: "\<not> isSpace (last s)"
  shows "TrimSpace s = s"
proof -
  have a: "dropWhile isSpace s = s" using ne h by (cases s) auto
  have b: "dropWhile isSpace (rev s) = rev s"
    using ne l by (cases s rule: rev_cases) auto
  show ?thesis by (simp add: TrimSpace_def a b)
qed

text \<open>After the collapse of white space no line feed is left, so the loop over the
  lines sees the whole text as one line.  If that line is not taken for a quotation
  and has at least 100 characters, the snippet is its first 97 characters and an
  ellipsis.\<close>

lemma generateSnippet_long:
  assumes len: "100 \<le> length (whitespace_ReplaceAllString (TrimSpace body))"
      and nq: "\<not> HasPrefix (whitespace_ReplaceAllString (TrimSpace body)) ''>''"
      and nm: "\<not> Contains (whitespace_ReplaceAllString (TrimSpace body))
                   ''-----Original Message-----''"
  shows "generateSnippet body =
         take 97 (whitespace_ReplaceAllString (TrimSpace body)) @ ''...''"
proof -
  let ?c = "whitespace_ReplaceAllString (TrimSpace body)"
  have lines: "Split ?c [CHR 0x0A] = [?c]"
    by (rule Split_absent) (rule whitespace_no_newline)
  have cne: "?c \<noteq> []" using len by auto
  then have tne: "TrimSpace body \<noteq> []" by auto
  have hdc: "\<not> isSpace (hd ?c)"
    using hd_TrimSpace [OF tne] hd_whitespace [OF tne] by simp
  let ?r = "take 97 ?c @ ''...''"
  have hdr: "hd ?r = hd ?c" using len cne by (cases ?c) auto
  have "TrimSpace ?r = ?r"
    by (rule TrimSpace_id) (use hdr hdc in \<open>auto simp: isSpace_def\<close>)
  then show ?thesis
    using len nq nm by (simp add: generateSnippet_def Let_def lines)
qed

text \<open>
  C7 (as the code has it).  The 100 characters are counted after the body has been
  trimmed and its runs of white space have been collapsed.  For every body, of 250
  characters or of any other length, whose collapsed text has at least 100 characters,
  does not start with \<^verbatim>\<open>>\<close> and does not contain the marker of a forwarded message, the
  snippet has exactly 100 characters and ends with three dots.
\<close>

theorem C7_snippet_truncated:
  assumes "100 \<le> length (whitespace_ReplaceAllString (TrimSpace body))"
      and "\<not> HasPrefix (whitespace_ReplaceAllString (TrimSpace body)) ''>''"
      and "\<not> Contains (whitespace_ReplaceAllString (TrimSpace body))
                ''-----Original Message-----''"
  shows "length (generateSnippet body) = 100 \<and> drop 97 (generateSnippet body) = ''...''"
  using assms(1) by (simp add: generateSnippet_long [OF assms])

theorem C7_snippet_truncated_witness:
  "length budget_note = 250 \<and>
   100 \<le> length (whitespace_ReplaceAllString (TrimSpace budget_note)) \<and>
   \<not> HasPrefix (whitespace_ReplaceAllString (TrimSpace budget_note)) ''>'' \<and>
   \<not> Contains (whitespace_ReplaceAllString (TrimSpace budget_note))
       ''-----Original Message-----'' \<and>
   length (generateSnippet budget_note) = 100 \<and>
   drop 97 (generateSnippet budget_note) = ''...''"
proof -
  have c: "whitespace_ReplaceAllString (TrimSpace budget_note) = budget_note"
    by (simp add: budget_note_def TrimSpace_def isSpace_def isReSpace_def)
  have h1: "100 \<le> length (whitespace_ReplaceAllString (TrimSpace budget_note))"
    unfolding c by (simp add: budget_note_def)
  have h2: "\<not> HasPrefix (whitespace_ReplaceAllString (TrimSpace budget_note)) ''>''"
    unfolding c by (simp add: budget_note_def)
  have h3: "\<not> Contains (whitespace_ReplaceAllString (TrimSpace budget_note))
                 ''-----Original Message-----''"
    unfolding c by (simp add: budget_note_def)
  have "length budget_note = 250" by (simp add: budget_note_def)
  then show ?thesis using h1 h2 h3 C7_snippet_truncated [OF h1 h2 h3] by simp
qed

text \<open>
  C7 as the specification states it fails: the table has 250 characters and no
  quotation marker, but its collapsed text has 94 characters only, so the snippet is
  that text, without an ellipsis.
\<close>

theorem C7_short_after_collapse:
  "length deal_table = 250 \<and>
   \<not> Contains deal_table ''>'' \<and>
   \<not> Contains deal_table ''-----Original Message-----'' \<and>
   generateSnippet deal_table =
     ''Deal Volume Price Term NG-1 10000 2.95 Jun01 NG-2 5000 3.10 Jul01 PWR 250 41.00 Q3 Total 15250'' \<and>
   length (generateSnippet deal_table) = 94"
proof -
  have g: "generateSnippet deal_table =
     ''Deal Volume Price Term NG-1 10000 2.95 Jun01 NG-2 5000 3.10 Jul01 PWR 250 41.00 Q3 Total 15250''"
    by (simp add: deal_table_def generateSnippet_def TrimSpace_def isSpace_def isReSpace_def
          Split_def Let_def)
  have "length deal_table = 250" by (simp add: deal_table_def)
  moreover have "\<not> Contains deal_table ''>''" by (simp add: deal_table_def)
  moreover have "\<not> Contains deal_table ''-----Original Message-----''"
    by (simp add: deal_table_def)
  ultimately show ?thesis unfolding g by simp
qed

subsection \<open>Date parsing\<close>

lemma parseEnronDate_loop_none:
  "(\<forall>f \<in> set fs. \<exists>err. P f s = Inl err) \<Longrightarrow> parseEnronDate_loop P now fs s = now"
  by (induction fs) auto

lemma parseEnronDate_loop_first:
  "i < length fs \<Longrightarrow> P (fs ! i) s = Inr t \<Longrightarrow> (\<forall>j<i. \<exists>err. P (fs ! j) s = Inl err)
   \<Longrightarrow> parseEnronDate_loop P now fs s = t"
proof (induction fs arbitrary: i)
  case Nil
  then show ?case by simp
next
  case (Cons f fs)
  show ?case
  proof (cases i)
    case 0
    with Cons.prems show ?thesis by simp
  next
    case (Suc k)
    from Cons.prems(3) Suc obtain err where "P f s = Inl err" by fastforce
    moreover have "parseEnronDate_loop P now fs s = t"
    proof (rule Cons.IH [of k])
      show "k < length fs" using Cons.prems(1) Suc by simp
      show "P (fs ! k) s = Inr t" using Cons.prems(2) Suc by simp
      show "\<forall>j<k. \<exists>err. P (fs ! j) s = Inl err"
        using Cons.prems(3) Suc by fastforce
    qed
    ultimately show ?thesis by simp
  qed
qed

text \<open>
  C9.  \<^verbatim>\<open>parseEnronDate\<close> has no error result.  If no layout of the list parses the
  string, it returns the current time; if layout number \<open>i\<close> parses it and no earlier one
  does, it returns what that layout gives.
\<close>

theorem C9_first_layout_or_now:
  "((\<forall>f \<in> set formats. \<exists>err. timeParse f s = Inl err)
      \<longrightarrow> parseEnronDate timeParse now s = now) \<and>
   (\<forall>i t. i < length formats \<and> timeParse (formats ! i) s = Inr t \<and>
          (\<forall>j<i. \<exists>err. timeParse (formats ! j) s = Inl err)
      \<longrightarrow> parseEnronDate timeParse now s = t)"
  unfolding parseEnronDate_def
  using parseEnronDate_loop_none parseEnronDate_loop_first by blast

theorem C9_first_layout_or_now_witness:
  "map (\<lambda>f. timeParse_sample f ''yesterday'') formats =
     [Inl ''parsing time: cannot parse'', Inl ''parsing time: cannot parse'',
      Inl ''parsing time: cannot parse'', Inl ''parsing time: cannot parse'',
      Inl ''parsing time: cannot parse''] \<and>
   parseEnronDate timeParse_sample run_start ''yesterday'' = run_start \<and>
   map (\<lambda>f. timeParse_sample f ''Mon, 14 May 2001 10:00:00 -0700 (PDT)'') formats =
     [Inl ''parsing time: cannot parse'', Inl ''parsing time: cannot parse'',
      Inr \<lparr>unixNano = 989859600 * 1000000000, zoneOffset = - 25200\<rparr>,
      Inl ''parsing time: cannot parse'', Inl ''parsing time: cannot parse''] \<and>
   parseEnronDate timeParse_sample run_start ''Mon, 14 May 2001 10:00:00 -0700 (PDT)'' =
     \<lparr>unixNano = 989859600 * 1000000000, zoneOffset = - 25200\<rparr>"
proof -
  have a: "\<forall>f \<in> set formats. \<exists>err. timeParse_sample f ''yesterday'' = Inl err"
    by (simp add: timeParse_sample_def)
  have b: "(2::nat) < length formats" by (simp add: formats_def)
  have c: "timeParse_sample (formats ! 2) ''Mon, 14 May 2001 10:00:00 -0700 (PDT)'' =
     Inr \<lparr>unixNano = 989859600 * 1000000000, zoneOffset = - 25200\<rparr>"
    by (simp add: formats_def timeParse_sample_def)
  have d: "\<forall>j<2. \<exists>err. timeParse_sample (formats ! j)
                 ''Mon, 14 May 2001 10:00:00 -0700 (PDT)'' = Inl err"
    by (simp add: formats_def timeParse_sample_def less_Suc_eq numeral_2_eq_2)
  have e: "parseEnronDate timeParse_sample run_start ''yesterday'' = run_start"
    using a C9_first_layout_or_now [of timeParse_sample "''yesterday''" run_start] by blast
  have f: "parseEnronDate timeParse_sample run_start ''Mon, 14 May 2001 10:00:00 -0700 (PDT)'' =
     \<lparr>unixNano = 989859600 * 1000000000, zoneOffset = - 25200\<rparr>"
    using b c d
      C9_first_layout_or_now
        [of timeParse_sample "''Mon, 14 May 2001 10:00:00 -0700 (PDT)''" run_start]
    by blast
  show ?thesis
    unfolding e f by (simp add: formats_def timeParse_sample_def)
qed

subsection \<open>Frequency counting\<close>

lemma counted_countAddress:
  "counted user occ freq \<Longrightarrow> counted user (occ @ [extractEmail x]) (countAddress user freq x)"
  unfolding counted_def countAddress_def Let_def
  by (auto simp: count_list_0_iff)

lemma counted_foldl:
  "counted user occ freq
   \<Longrightarrow> counted user (occ @ map extractEmail xs) (foldl (countAddress user) freq xs)"
proof (induction xs arbitrary: occ freq)
  case Nil
  then show ?case by simp
next
  case (Cons x xs)
  from counted_countAddress [OF Cons.prems]
  have "counted user (occ @ [extractEmail x]) (countAddress user freq x)" .
  from Cons.IH [OF this] show ?case by simp
qed

lemma counted_emails:
  "counted user occ freq
   \<Longrightarrow> counted user (occ @ concat (map (\<lambda>e. map extractEmail (From e # To e)) emails))
         (foldl (\<lambda>freq e. foldl (countAddress user) (countAddress user freq (From e)) (To e))
            freq emails)"
proof (induction emails arbitrary: occ freq)
  case Nil
  then show ?case by simp
next
  case (Cons e es)
  have "counted user (occ @ map extractEmail (From e # To e))
          (foldl (countAddress user) (countAddress user freq (From e)) (To e))"
    using counted_foldl [OF Cons.prems, of "From e # To e"] by simp
  from Cons.IH [OF this] show ?case by simp
qed

text \<open>
  C6 (as the code has it).  The loop looks at the sender and at the entries of \<^verbatim>\<open>To\<close>
  and at nothing else.  The counter of an address is the number of times it is
  extracted from a sender or a \<^verbatim>\<open>To\<close> entry of the records, provided it is not empty and
  does not contain the owner fragment; every other address has no counter.
\<close>

theorem C6_sender_and_to_counted:
  "contactFreq user emails a =
     (if a \<noteq> [] \<and> \<not> Contains a user
         \<and> a \<in> set (concat (map (\<lambda>e. map extractEmail (From e # To e)) emails))
      then Some (int (count_list
                        (concat (map (\<lambda>e. map extractEmail (From e # To e)) emails)) a))
      else None)"
proof -
  have "counted user [] Map.empty" by (simp add: counted_def)
  from counted_emails [OF this, of emails] show ?thesis
    by (simp add: counted_def contactFreq_def)
qed

text \<open>
  C6 as the specification states it fails: of the record that the owner sends to Alice
  with a copy to Dave and a blind copy to Erin, only Alice is counted.
\<close>

theorem C6_copies_not_counted:
  "contactFreq ''kaminski'' [copied_mail] = [''alice.adams@enron.com'' \<mapsto> 1] \<and>
   contactFreq ''kaminski'' [copied_mail] ''dave.smith@enron.com'' = None \<and>
   contactFreq ''kaminski'' [copied_mail] ''erin.jones@enron.com'' = None \<and>
   contactFreq ''kaminski'' [copied_mail] ''vince.kaminski@enron.com'' = None"
  by (simp add: contactFreq_def countAddress_def copied_mail_def blank_email_def
        extractEmail_def ToLower_def toLowerChar_def TrimSpace_def isSpace_def)

subsection \<open>What one record leaves unchanged\<close>

lemma transformEmail_Inr:
  "\<exists>m. fst (transformEmail order t e) = Inr m \<and>
       InternalDate m = showInt (UnixMilli (Add (Date e) (timeShift t))) \<and>
       HistoryId m = showInt (Unix (Add (Date e) (timeShift t)))"
  by (simp add: transformEmail_def getOrCreateThreadID_def Let_def split: option.splits)

lemma transformEmail_state:
  "timeShift (snd (transformEmail order t e)) = timeShift t \<and>
   personaMap (snd (transformEmail order t e)) = personaMap t \<and>
   enronUserName (snd (transformEmail order t e)) = enronUserName t \<and>
   userEmail (snd (transformEmail order t e)) = userEmail t \<and>
   stats (snd (transformEmail order t e)) = stats t"
  by (simp add: transformEmail_def getOrCreateThreadID_def Let_def split: option.splits)

lemma buildPersonaMap_timeShift: "timeShift (buildPersonaMap rt t emails) = timeShift t"
  by (simp add: buildPersonaMap_def assignPersonas_def Let_def)

lemma TransformDataset_loop_dates:
  "timeShift (snd (TransformDataset_loop rt i es t acc)) = timeShift t \<and>
   map InternalDate (fst (TransformDataset_loop rt i es t acc)) =
     map InternalDate acc @ map (\<lambda>e. showInt (UnixMilli (Add (Date e) (timeShift t)))) es"
proof (induction es arbitrary: i t acc)
  case Nil
  then show ?case by simp
next
  case (Cons e es)
  let ?t1 = "t\<lparr>stats := (stats t)\<lparr>TotalProcessed := TotalProcessed (stats t) + 1\<rparr>\<rparr>"
  obtain m where m: "fst (transformEmail (rangeReplacements rt i) ?t1 e) = Inr m"
    and d: "InternalDate m = showInt (UnixMilli (Add (Date e) (timeShift ?t1)))"
    using transformEmail_Inr by blast
  obtain t2 where te: "transformEmail (rangeReplacements rt i) ?t1 e = (Inr m, t2)"
    using m by (cases "transformEmail (rangeReplacements rt i) ?t1 e") auto
  have ts: "timeShift t2 = timeShift t"
    using transformEmail_state [of "rangeReplacements rt i" ?t1 e] te by simp
  show ?case
    using Cons.IH [of "i + 1" "t2\<lparr>stats := (stats t2)\<lparr>TotalTransformed := TotalTransformed (stats t2) + 1\<rparr>\<rparr>" "acc @ [m]"]
    by (simp add: Let_def te ts d)
qed

lemma transformHeaders_cong:
  "same_identity t' t \<Longrightarrow> transformHeaders t' e = transformHeaders t e"
proof -
  assume a: "same_identity t' t"
  have "transformEmailAddress t' = transformEmailAddress t"
    using a unfolding same_identity_def
    by (intro ext, elim conjE) (simp add: transformEmailAddress_def Let_def split: option.splits)
  then show ?thesis
    using a by (simp add: same_identity_def transformHeaders_def transformEmailList_def)
qed

lemma transformEmail_message:
  "\<exists>m p. fst (transformEmail order t e) = Inr m \<and>
     GmailMessage.Id m = generateGmailID (MessageID e) \<and>
     GmailMessage.ThreadId m =
       (case threadCache t (threadKey e) of Some v \<Rightarrow> v | None \<Rightarrow> generateThreadID (threadKey e)) \<and>
     Payload m = Some p \<and> Headers p = transformHeaders t e"
proof -
  have "transformHeaders (t\<lparr>messageIDMap := x\<rparr>) e = transformHeaders t e" for x
    by (rule transformHeaders_cong) (simp add: same_identity_def)
  then show ?thesis
    by (simp add: transformEmail_def getOrCreateThreadID_def Let_def split: option.splits)
qed

lemma transformEmail_cache:
  "threadCache (snd (transformEmail order t e)) =
     (case threadCache t (threadKey e) of
        Some v \<Rightarrow> threadCache t
      | None \<Rightarrow> (threadCache t)(threadKey e \<mapsto> generateThreadID (threadKey e)))"
  by (simp add: transformEmail_def getOrCreateThreadID_def Let_def split: option.splits)

lemma transformEmail_identity:
  "same_identity (snd (transformEmail order t e)) t"
  by (simp add: transformEmail_def getOrCreateThreadID_def Let_def same_identity_def
        split: option.splits)

lemma TransformDataset_loop_run:
  "cache_ok t \<Longrightarrow>
   map GmailMessage.Id (fst (TransformDataset_loop rt i es t acc)) =
     map GmailMessage.Id acc @ map (\<lambda>e. generateGmailID (MessageID e)) es \<and>
   map GmailMessage.ThreadId (fst (TransformDataset_loop rt i es t acc)) =
     map GmailMessage.ThreadId acc @ map (\<lambda>e. generateThreadID (threadKey e)) es \<and>
   map (\<lambda>m. map_option Headers (Payload m)) (fst (TransformDataset_loop rt i es t acc)) =
     map (\<lambda>m. map_option Headers (Payload m)) acc @ map (\<lambda>e. Some (transformHeaders t e)) es \<and>
   dom (threadCache (snd (TransformDataset_loop rt i es t acc))) =
     dom (threadCache t) \<union> threadKey ` set es \<and>
   same_identity (snd (TransformDataset_loop rt i es t acc)) t"
proof (induction es arbitrary: i t acc)
  case Nil
  then show ?case by (simp add: same_identity_def)
next
  case (Cons e es)
  let ?t1 = "t\<lparr>stats := (stats t)\<lparr>TotalProcessed := TotalProcessed (stats t) + 1\<rparr>\<rparr>"
  let ?r = "transformEmail (rangeReplacements rt i) ?t1 e"
  obtain m p where m: "fst ?r = Inr m"
    and mid: "GmailMessage.Id m = generateGmailID (MessageID e)"
    and mth: "GmailMessage.ThreadId m =
       (case threadCache ?t1 (threadKey e) of Some v \<Rightarrow> v | None \<Rightarrow> generateThreadID (threadKey e))"
    and mp: "Payload m = Some p" and ph: "Headers p = transformHeaders ?t1 e"
    using transformEmail_message [of "rangeReplacements rt i" ?t1 e] by blast
  obtain t2 where te: "?r = (Inr m, t2)"
    using m by (cases ?r) auto
  let ?t3 = "t2\<lparr>stats := (stats t2)\<lparr>TotalTransformed := TotalTransformed (stats t2) + 1\<rparr>\<rparr>"
  have c2: "threadCache t2 =
     (case threadCache t (threadKey e) of
        Some v \<Rightarrow> threadCache t
      | None \<Rightarrow> (threadCache t)(threadKey e \<mapsto> generateThreadID (threadKey e)))"
    using transformEmail_cache [of "rangeReplacements rt i" ?t1 e] te
    by (auto split: option.splits)
  have id2: "same_identity t2 t"
    using transformEmail_identity [of "rangeReplacements rt i" ?t1 e] te
    by (simp add: same_identity_def)
  have id3: "same_identity ?t3 t" using id2 by (simp add: same_identity_def)
  have ok3: "cache_ok ?t3"
    using Cons.prems c2 by (auto simp: cache_ok_def split: option.splits if_splits)
  have th: "GmailMessage.ThreadId m = generateThreadID (threadKey e)"
    using mth Cons.prems by (auto simp: cache_ok_def split: option.splits)
  have "transformHeaders ?t1 e = transformHeaders t e"
    by (rule transformHeaders_cong) (simp add: same_identity_def)
  then have hd: "Headers p = transformHeaders t e"
    using ph by simp
  have dom3: "dom (threadCache t2) = insert (threadKey e) (dom (threadCache t))"
    using c2 by (auto split: option.splits)
  have loop: "TransformDataset_loop rt i (e # es) t acc =
              TransformDataset_loop rt (i + 1) es ?t3 (acc @ [m])"
    by (simp add: Let_def te)
  have "transformHeaders ?t3 = transformHeaders t"
    by (intro ext transformHeaders_cong id3)
  then have hs: "map (\<lambda>e. Some (transformHeaders ?t3 e)) es = map (\<lambda>e. Some (transformHeaders t e)) es"
    by simp
  show ?case
    unfolding loop
    using Cons.IH [OF ok3, of "i + 1" "acc @ [m]"] id3
    by (simp add: mid th mp hd dom3 hs same_identity_def)
qed

lemma set_insertLeft: "set (insertLeft lt x ys) = insert x (set ys)"
  by (induction ys) auto

lemma set_insertionSort: "set (insertionSort lt xs) = set xs"
proof -
  have "set (foldl (\<lambda>acc x. insertLeft lt x acc) ys xs) = set ys \<union> set xs" for ys
    by (induction xs arbitrary: ys) (auto simp: set_insertLeft)
  then show ?thesis by (simp add: insertionSort_def)
qed

lemma dom_assignPersonas_loop:
  "dom (assignPersonas_loop i cs pm) = dom pm \<union> email ` set cs"
  by (induction cs arbitrary: i pm) auto

lemma dom_service_fold:
  "dom (foldl (\<lambda>pm addr. pm(addr \<mapsto> f addr)) pm xs) = dom pm \<union> set xs"
  by (induction xs arbitrary: pm) auto

lemma dom_assignPersonas:
  "dom (personaMap (assignPersonas t cs)) = dom (personaMap t) \<union> email ` set cs \<union> set serviceEmails"
  by (simp add: assignPersonas_def dom_service_fold dom_assignPersonas_loop)

lemma dom_buildPersonaMap:
  assumes "set order = dom (contactFreq (enronUserName t) emails)"
  shows "dom (personaMap (buildPersonaMap (small_run order) t emails)) =
         dom (personaMap t) \<union> dom (contactFreq (enronUserName t) emails) \<union> set serviceEmails"
proof -
  let ?f = "contactFreq (enronUserName t) emails"
  have "email ` set (List.map_filter (\<lambda>k. map_option (\<lambda>n. \<lparr>email = k, count = n\<rparr>) (?f k)) order)
        = dom ?f"
    using assms by (force simp: List.map_filter_def image_def dom_def)
  then show ?thesis
    by (simp add: buildPersonaMap_def Let_def dom_assignPersonas small_run_def set_insertionSort)
qed

lemma buildPersonaMap_rest:
  "threadCache (buildPersonaMap rt t emails) = threadCache t \<and>
   timeShift (buildPersonaMap rt t emails) = timeShift t \<and>
   userEmail (buildPersonaMap rt t emails) = userEmail t \<and>
   enronUserName (buildPersonaMap rt t emails) = enronUserName t"
  by (simp add: buildPersonaMap_def assignPersonas_def Let_def)

subsection \<open>Evaluation of the examples\<close>

lemmas md5_eval = md5_hex_def md5_blocks.simps md5_block_def md5_pad_def Let_def md5_f_def
  md5_g_def md5_K_def md5_s_def rotl32_def add32_def not32_def hex_le32_def hex_byte_def
  zero_bytes.simps

lemmas string_eval = ToLower_def toLowerChar_def TrimSpace_def isSpace_def isReSpace_def
  Split_def Title_def toUpperChar_def isSeparator_def isDigit_def isLetter_def isUpper_def
  isLower_def

lemmas example_mails = budget_mail_def budget_reply_def meeting_notes_def copied_mail_def
  draft_note_def blank_email_def

lemma new_transformer_timeShift: "timeShift new_transformer = 711028800 * 1000000000"
  by code_simp

lemma new_transformer_fields:
  "enronUserName new_transformer = ''kaminski''"
  "userEmail new_transformer = ''test@example.com''"
  "threadCache new_transformer = Map.empty"
  "personaMap new_transformer = Map.empty"
  by (simp_all add: new_transformer_def NewGmailTransformer_def Let_def)

lemma cache_ok_new: "cache_ok new_transformer"
  by (simp add: cache_ok_def new_transformer_fields)

lemma gmail_ids:
  "generateGmailID ''<1001.JavaMail.evans@thyme>'' = ''6c3a90d5dc6f0829''"
  "generateGmailID ''<1002.JavaMail.evans@thyme>'' = ''e9653e1ed02fe7fb''"
  "generateGmailID ''<1003.JavaMail.evans@thyme>'' = ''8974f5bb28b22560''"
  by (simp_all add: generateGmailID_def md5_eval)

lemma thread_ids:
  "generateThreadID ''budget|alice.adams@enron.com,bob.brown@enron.com,vince.kaminski@enron.com''
     = ''525bda3e808a0b30''"
  "generateThreadID ''budget|alice.adams@enron.com,vince.kaminski@enron.com'' = ''acd2ec070258d9b2''"
  "generateThreadID ''meeting notes|carol.clark@enron.com,vince.kaminski@enron.com'' = ''197a63d779dd20e7''"
  by (simp_all add: generateThreadID_def md5_eval)

lemma thread_keys:
  "threadKey budget_mail =
     ''budget|alice.adams@enron.com,bob.brown@enron.com,vince.kaminski@enron.com''"
  "threadKey budget_reply = ''budget|alice.adams@enron.com,vince.kaminski@enron.com''"
  "threadKey meeting_notes = ''meeting notes|carol.clark@enron.com,vince.kaminski@enron.com''"
  by (simp_all add: threadKey_def example_mails cleanSubjectForThreading_def
        prefixes_ReplaceAllString_def sortStrings_def insertionSort_def string_eval)

lemma budget_sorted:
  "sortEmails (small_run order) (\<lambda>a b. Before (Date a) (Date b))
     [meeting_notes, budget_mail, budget_reply] =
   [budget_mail, budget_reply, meeting_notes]"
  by (simp add: small_run_def insertionSort_def Before_def example_mails)

lemma budget_contactFreq:
  "contactFreq ''kaminski'' [budget_mail, budget_reply, meeting_notes] =
     [''alice.adams@enron.com'' \<mapsto> 2, ''bob.brown@enron.com'' \<mapsto> 1,
      ''carol.clark@enron.com'' \<mapsto> 1]"
  by (simp add: contactFreq_def countAddress_def example_mails extractEmail_def string_eval
        fun_upd_twist)

lemma budget_dom:
  "dom (contactFreq ''kaminski'' [budget_mail, budget_reply, meeting_notes]) =
     {''alice.adams@enron.com'', ''bob.brown@enron.com'', ''carol.clark@enron.com''}"
  by (auto simp: budget_contactFreq)

subsection \<open>A whole run\<close>

text \<open>From a transformer whose thread cache is consistent, the identifiers of the
  messages are the hashes of the source identifiers and of the thread keys, in
  processing order, and the cache gains the keys of the records.\<close>

lemma TransformDataset_run:
  assumes "cache_ok t"
  shows "map GmailMessage.Id (fst (TransformDataset rt t emails)) =
           map (\<lambda>e. generateGmailID (MessageID e))
             (sortEmails rt (\<lambda>a b. Before (Date a) (Date b)) emails) \<and>
         map GmailMessage.ThreadId (fst (TransformDataset rt t emails)) =
           map (\<lambda>e. generateThreadID (threadKey e))
             (sortEmails rt (\<lambda>a b. Before (Date a) (Date b)) emails) \<and>
         map (\<lambda>m. map_option Headers (Payload m)) (fst (TransformDataset rt t emails)) =
           map (\<lambda>e. Some (transformHeaders
                  (buildPersonaMap rt t (sortEmails rt (\<lambda>a b. Before (Date a) (Date b)) emails)) e))
             (sortEmails rt (\<lambda>a b. Before (Date a) (Date b)) emails) \<and>
         ThreadCount (stats (snd (TransformDataset rt t emails))) =
           int (card (dom (threadCache t) \<union>
                  threadKey ` set (sortEmails rt (\<lambda>a b. Before (Date a) (Date b)) emails))) \<and>
         personaMap (snd (TransformDataset rt t emails)) =
           personaMap (buildPersonaMap rt t
             (sortEmails rt (\<lambda>a b. Before (Date a) (Date b)) emails)) \<and>
         PersonaMap (stats (snd (TransformDataset rt t emails))) =
           personaMap (buildPersonaMap rt t
             (sortEmails rt (\<lambda>a b. Before (Date a) (Date b)) emails))"
proof -
  let ?s = "sortEmails rt (\<lambda>a b. Before (Date a) (Date b)) emails"
  let ?t1 = "buildPersonaMap rt t ?s"
  have ok: "cache_ok ?t1"
    using assms by (simp add: cache_ok_def buildPersonaMap_rest)
  show ?thesis
    using TransformDataset_loop_run [OF ok, of rt 0 ?s "[]"]
    by (simp add: TransformDataset_def Let_def split_beta same_identity_def
          buildPersonaMap_rest)
qed

lemma budget_run:
  assumes "set order = {''alice.adams@enron.com'', ''bob.brown@enron.com'', ''carol.clark@enron.com''}"
  shows "map GmailMessage.Id
           (fst (TransformDataset (small_run order) new_transformer
                   [meeting_notes, budget_mail, budget_reply])) =
           [''6c3a90d5dc6f0829'', ''e9653e1ed02fe7fb'', ''8974f5bb28b22560'']"
    and "map GmailMessage.ThreadId
           (fst (TransformDataset (small_run order) new_transformer
                   [meeting_notes, budget_mail, budget_reply])) =
           [''525bda3e808a0b30'', ''acd2ec070258d9b2'', ''197a63d779dd20e7'']"
    and "ThreadCount (stats (snd (TransformDataset (small_run order) new_transformer
                   [meeting_notes, budget_mail, budget_reply]))) = 3"
    and "dom (personaMap (snd (TransformDataset (small_run order) new_transformer
                   [meeting_notes, budget_mail, budget_reply]))) =
           {''alice.adams@enron.com'', ''bob.brown@enron.com'', ''carol.clark@enron.com''} \<union>
           set serviceEmails"
proof -
  note run = TransformDataset_run [OF cache_ok_new, of "small_run order"
      "[meeting_notes, budget_mail, budget_reply]", unfolded budget_sorted]
  show "map GmailMessage.Id
           (fst (TransformDataset (small_run order) new_transformer
                   [meeting_notes, budget_mail, budget_reply])) =
           [''6c3a90d5dc6f0829'', ''e9653e1ed02fe7fb'', ''8974f5bb28b22560'']"
    using run by (simp add: example_mails gmail_ids)
  show "map GmailMessage.ThreadId
           (fst (TransformDataset (small_run order) new_transformer
                   [meeting_notes, budget_mail, budget_reply])) =
           [''525bda3e808a0b30'', ''acd2ec070258d9b2'', ''197a63d779dd20e7'']"
    using run by (simp add: thread_keys thread_ids)
  show "ThreadCount (stats (snd (TransformDataset (small_run order) new_transformer
                   [meeting_notes, budget_mail, budget_reply]))) = 3"
    using run by (simp add: thread_keys new_transformer_fields)
  have "set order = dom (contactFreq (enronUserName new_transformer)
                           [budget_mail, budget_reply, meeting_notes])"
    using assms by (simp add: new_transformer_fields budget_dom)
  from dom_buildPersonaMap [OF this]
  show "dom (personaMap (snd (TransformDataset (small_run order) new_transformer
                   [meeting_notes, budget_mail, budget_reply]))) =
           {''alice.adams@enron.com'', ''bob.brown@enron.com'', ''carol.clark@enron.com''} \<union>
           set serviceEmails"
    using run by (simp add: new_transformer_fields budget_dom)
qed

text \<open>
  C1 (as the code has it).  The thread key holds the sorted sender and \<^verbatim>\<open>To\<close> entries
  of a record, so the message to Alice and Bob and Alice's answer to the owner have
  different keys.  For every order in which the three counted addresses are visited,
  the run on the three records gives three distinct message identifiers, three
  distinct thread identifiers (one per record), and a persona map whose keys are the
  three correspondents and the four service addresses.
\<close>

theorem C1_budget_scenario:
  assumes "distinct order"
      and "set order = {''alice.adams@enron.com'', ''bob.brown@enron.com'', ''carol.clark@enron.com''}"
  shows "map GmailMessage.Id
           (fst (TransformDataset (small_run order) new_transformer
                   [meeting_notes, budget_mail, budget_reply])) =
           [''6c3a90d5dc6f0829'', ''e9653e1ed02fe7fb'', ''8974f5bb28b22560''] \<and>
         map GmailMessage.ThreadId
           (fst (TransformDataset (small_run order) new_transformer
                   [meeting_notes, budget_mail, budget_reply])) =
           [''525bda3e808a0b30'', ''acd2ec070258d9b2'', ''197a63d779dd20e7''] \<and>
         card (set (map GmailMessage.ThreadId
           (fst (TransformDataset (small_run order) new_transformer
                   [meeting_notes, budget_mail, budget_reply])))) = 3 \<and>
         card (set (map GmailMessage.Id
           (fst (TransformDataset (small_run order) new_transformer
                   [meeting_notes, budget_mail, budget_reply])))) = 3 \<and>
         ThreadCount (stats (snd (TransformDataset (small_run order) new_transformer
                   [meeting_notes, budget_mail, budget_reply]))) = 3 \<and>
         dom (personaMap (snd (TransformDataset (small_run order) new_transformer
                   [meeting_notes, budget_mail, budget_reply]))) =
           {''alice.adams@enron.com'', ''bob.brown@enron.com'', ''carol.clark@enron.com''} \<union>
           set serviceEmails"
  unfolding budget_run [OF assms(2)] by simp

theorem C1_budget_scenario_witness:
  "distinct [''alice.adams@enron.com'', ''bob.brown@enron.com'', ''carol.clark@enron.com''] \<and>
   set [''alice.adams@enron.com'', ''bob.brown@enron.com'', ''carol.clark@enron.com''] =
     {''alice.adams@enron.com'', ''bob.brown@enron.com'', ''carol.clark@enron.com''} \<and>
   map GmailMessage.ThreadId
     (fst (TransformDataset
             (small_run [''alice.adams@enron.com'', ''bob.brown@enron.com'', ''carol.clark@enron.com''])
             new_transformer [meeting_notes, budget_mail, budget_reply])) =
     [''525bda3e808a0b30'', ''acd2ec070258d9b2'', ''197a63d779dd20e7''] \<and>
   dom (personaMap (snd (TransformDataset
             (small_run [''alice.adams@enron.com'', ''bob.brown@enron.com'', ''carol.clark@enron.com''])
             new_transformer [meeting_notes, budget_mail, budget_reply]))) =
     {''alice.adams@enron.com'', ''bob.brown@enron.com'', ''carol.clark@enron.com''} \<union>
     set serviceEmails"
proof -
  have d: "distinct [''alice.adams@enron.com'', ''bob.brown@enron.com'', ''carol.clark@enron.com'']"
    by simp
  have s: "set [''alice.adams@enron.com'', ''bob.brown@enron.com'', ''carol.clark@enron.com''] =
     {''alice.adams@enron.com'', ''bob.brown@enron.com'', ''carol.clark@enron.com''}"
    by simp
  note c = C1_budget_scenario [OF d s]
  show ?thesis
    using d s c [THEN conjunct2, THEN conjunct1]
      c [THEN conjunct2, THEN conjunct2, THEN conjunct2, THEN conjunct2, THEN conjunct2]
    by (intro conjI)
qed

text \<open>
  C1 as the specification states it fails: the run yields three thread identifiers, not
  two, and the persona map has a key that is none of the three correspondents.
\<close>

theorem C1_reply_in_other_thread:
  "map GmailMessage.ThreadId
     (fst (TransformDataset
             (small_run [''alice.adams@enron.com'', ''bob.brown@enron.com'', ''carol.clark@enron.com''])
             new_transformer [meeting_notes, budget_mail, budget_reply])) =
     [''525bda3e808a0b30'', ''acd2ec070258d9b2'', ''197a63d779dd20e7''] \<and>
   card (set (map GmailMessage.ThreadId
     (fst (TransformDataset
             (small_run [''alice.adams@enron.com'', ''bob.brown@enron.com'', ''carol.clark@enron.com''])
             new_transformer [meeting_notes, budget_mail, budget_reply])))) \<noteq> 2 \<and>
   ''notifications@github.com'' \<in>
     dom (personaMap (snd (TransformDataset
             (small_run [''alice.adams@enron.com'', ''bob.brown@enron.com'', ''carol.clark@enron.com''])
             new_transformer [meeting_notes, budget_mail, budget_reply]))) \<and>
   dom (personaMap (snd (TransformDataset
             (small_run [''alice.adams@enron.com'', ''bob.brown@enron.com'', ''carol.clark@enron.com''])
             new_transformer [meeting_notes, budget_mail, budget_reply]))) \<noteq>
     {''alice.adams@enron.com'', ''bob.brown@enron.com'', ''carol.clark@enron.com''}"
proof -
  have s: "set [''alice.adams@enron.com'', ''bob.brown@enron.com'', ''carol.clark@enron.com''] =
     {''alice.adams@enron.com'', ''bob.brown@enron.com'', ''carol.clark@enron.com''}"
    by simp
  have a: "card (set [''525bda3e808a0b30'', ''acd2ec070258d9b2'', ''197a63d779dd20e7'']) \<noteq> 2"
    by simp
  have b: "''notifications@github.com'' \<in>
      {''alice.adams@enron.com'', ''bob.brown@enron.com'', ''carol.clark@enron.com''} \<union>
      set serviceEmails"
    by (simp add: serviceEmails_def)
  have c: "''notifications@github.com'' \<notin>
      {''alice.adams@enron.com'', ''bob.brown@enron.com'', ''carol.clark@enron.com''}"
    by simp
  from b c have e: "{''alice.adams@enron.com'', ''bob.brown@enron.com'', ''carol.clark@enron.com''} \<union>
      set serviceEmails \<noteq>
      {''alice.adams@enron.com'', ''bob.brown@enron.com'', ''carol.clark@enron.com''}"
    by metis
  show ?thesis
    unfolding budget_run [OF s] using a b e by (intro conjI) simp_all
qed

subsection \<open>Persona assignment\<close>

lemma tie_contactFreq:
  "contactFreq ''kaminski'' [budget_reply, meeting_notes] =
     [''alice.adams@enron.com'' \<mapsto> 1, ''carol.clark@enron.com'' \<mapsto> 1]"
  by (simp add: contactFreq_def countAddress_def example_mails extractEmail_def string_eval)

lemmas persona_eval = buildPersonaMap_def assignPersonas_def small_run_def insertionSort_def
  List.map_filter_def personas_def serviceEmails_def new_transformer_fields Let_def

text \<open>
  C2 (where the code departs from it).  Alice and Carol have one occurrence each.  The
  contacts are sorted by count alone, so their order is the order in which \<^verbatim>\<open>range\<close>
  visits the map: if Alice is visited first she is Sarah Chen, if Carol is visited
  first Carol is Sarah Chen and Alice is David Kumar.  Both orders are possible in Go,
  and the second one is not the lexical one.
\<close>

theorem C2_tie_follows_map_order:
  "contactFreq ''kaminski'' [budget_reply, meeting_notes] =
     [''alice.adams@enron.com'' \<mapsto> 1, ''carol.clark@enron.com'' \<mapsto> 1] \<and>
   map_option Name
     (personaMap (buildPersonaMap (small_run [''alice.adams@enron.com'', ''carol.clark@enron.com''])
                    new_transformer [budget_reply, meeting_notes]) ''alice.adams@enron.com'') =
     Some ''Sarah Chen'' \<and>
   map_option Name
     (personaMap (buildPersonaMap (small_run [''carol.clark@enron.com'', ''alice.adams@enron.com''])
                    new_transformer [budget_reply, meeting_notes]) ''alice.adams@enron.com'') =
     Some ''David Kumar'' \<and>
   map_option Name
     (personaMap (buildPersonaMap (small_run [''carol.clark@enron.com'', ''alice.adams@enron.com''])
                    new_transformer [budget_reply, meeting_notes]) ''carol.clark@enron.com'') =
     Some ''Sarah Chen''"
  by (simp add: tie_contactFreq persona_eval)

lemma copied_contactFreq:
  "contactFreq ''kaminski'' [copied_mail] = [''alice.adams@enron.com'' \<mapsto> 1]"
  by (simp add: contactFreq_def countAddress_def example_mails extractEmail_def string_eval)

lemma copied_personas:
  "personaMap (buildPersonaMap (small_run [''alice.adams@enron.com'']) new_transformer [copied_mail])
     ''alice.adams@enron.com'' = Some (personas ! 0)"
  "personaMap (buildPersonaMap (small_run [''alice.adams@enron.com'']) new_transformer [copied_mail])
     ''dave.smith@enron.com'' = None"
  "enronUserName (buildPersonaMap (small_run [''alice.adams@enron.com'']) new_transformer [copied_mail])
     = ''kaminski''"
  "userEmail (buildPersonaMap (small_run [''alice.adams@enron.com'']) new_transformer [copied_mail])
     = ''test@example.com''"
  by (simp_all add: copied_contactFreq buildPersonaMap_def assignPersonas_def small_run_def
        insertionSort_def List.map_filter_def serviceEmails_def new_transformer_fields Let_def
        personas_def)

text \<open>
  C3 (as the code has it).  For an address that is a key of the persona map and does
  not contain the owner fragment, every header entry from which that address is
  extracted is rewritten to the name and address of its persona, every literal in a
  body that lower-cases to it is replaced by the address of the same persona, and
  transforming a record changes neither the persona map nor the owner fragment.
\<close>

theorem C3_mapped_address_stable:
  assumes "personaMap t k = Some persona" and "\<not> Contains k (enronUserName t)"
  shows "(extractEmail header = k \<longrightarrow>
            transformEmailAddress t header = Name persona @ '' <'' @ Email persona @ ''>'') \<and>
         (ToLower literal = k \<longrightarrow> transformBody_repl t literal = Email persona) \<and>
         personaMap (snd (transformEmail order t enron)) = personaMap t \<and>
         enronUserName (snd (transformEmail order t enron)) = enronUserName t"
  using assms transformEmail_state [of order t enron]
  by (simp add: transformEmailAddress_def transformBody_repl_def Let_def)

theorem C3_mapped_address_stable_witness:
  "personaMap (buildPersonaMap (small_run [''alice.adams@enron.com'']) new_transformer [copied_mail])
     ''alice.adams@enron.com'' = Some (personas ! 0) \<and>
   \<not> Contains ''alice.adams@enron.com''
       (enronUserName (buildPersonaMap (small_run [''alice.adams@enron.com'']) new_transformer
                         [copied_mail])) \<and>
   extractEmail ''Alice Adams <Alice.Adams@enron.com>'' = ''alice.adams@enron.com'' \<and>
   transformEmailAddress
     (buildPersonaMap (small_run [''alice.adams@enron.com'']) new_transformer [copied_mail])
     ''Alice Adams <Alice.Adams@enron.com>'' = ''Sarah Chen <sarah.chen@gmail.com>'' \<and>
   ToLower ''Alice.Adams@Enron.com'' = ''alice.adams@enron.com'' \<and>
   transformBody_repl
     (buildPersonaMap (small_run [''alice.adams@enron.com'']) new_transformer [copied_mail])
     ''Alice.Adams@Enron.com'' = ''sarah.chen@gmail.com''"
proof -
  let ?t = "buildPersonaMap (small_run [''alice.adams@enron.com'']) new_transformer [copied_mail]"
  have h1: "personaMap ?t ''alice.adams@enron.com'' = Some (personas ! 0)"
    by (rule copied_personas)
  have h2: "\<not> Contains ''alice.adams@enron.com'' (enronUserName ?t)"
    by (simp add: copied_personas)
  have h3: "extractEmail ''Alice Adams <Alice.Adams@enron.com>'' = ''alice.adams@enron.com''"
    by (simp add: extractEmail_def string_eval)
  have h4: "ToLower ''Alice.Adams@Enron.com'' = ''alice.adams@enron.com''"
    by (simp add: string_eval)
  have p: "Name (personas ! 0) = ''Sarah Chen''" "Email (personas ! 0) = ''sarah.chen@gmail.com''"
    by (simp_all add: personas_def)
  from C3_mapped_address_stable [OF h1 h2, of "''Alice Adams <Alice.Adams@enron.com>''" "''Alice.Adams@Enron.com''"]
  show ?thesis using h1 h2 h3 h4 by (simp add: p)
qed

text \<open>
  C3 as the specification states it fails for a correspondent that is not a key of the
  persona map: Dave is named in \<^verbatim>\<open>Cc\<close> only and is not counted, so the header shows him
  under a generated name and address while the body keeps his original address.
\<close>

theorem C3_copied_address_not_stable:
  "transformEmailList
     (buildPersonaMap (small_run [''alice.adams@enron.com'']) new_transformer [copied_mail])
     (CC copied_mail) = ''Dave Smith <dave smith@example.com>'' \<and>
   transformBody replacements
     (buildPersonaMap (small_run [''alice.adams@enron.com'']) new_transformer [copied_mail])
     (Body copied_mail) = ''Ask dave.smith@enron.com for the file.''"
proof -
  let ?t = "buildPersonaMap (small_run [''alice.adams@enron.com'']) new_transformer [copied_mail]"
  have a: "transformEmailAddress ?t ''dave.smith@enron.com'' = ''Dave Smith <dave smith@example.com>''"
    by (simp add: transformEmailAddress_def copied_personas extractEmail_def
          generateNameFromEmail_def string_eval)
  have r: "transformBody_repl ?t ''dave.smith@enron.com'' = ''dave.smith@enron.com''"
    by (simp add: transformBody_repl_def copied_personas string_eval)
  have b: "emailRegex_ReplaceAllStringFunc (transformBody_repl ?t) None
             ''Ask dave.smith@enron.com for the file.'' = ''Ask dave.smith@enron.com for the file.''"
    by (simp add: r emailRegex_match_def domainMatch_def domainTry.simps tldMatch_def tldTry.simps
          wordBoundary_def isWordChar_def isLocalChar_def isDomainChar_def isTldChar_def
          isLetter_def isDigit_def isUpper_def isLower_def Let_def)
  have f: "fixEncoding replacements ''Ask dave.smith@enron.com for the file.'' =
           ''Ask dave.smith@enron.com for the file.''"
    by (simp add: fixEncoding_def replacements_def)
  have c: "CC copied_mail = [''dave.smith@enron.com'']"
    and d: "Body copied_mail = ''Ask dave.smith@enron.com for the file.''"
    by (simp_all add: example_mails)
  have e: "transformBody replacements ?t (Body copied_mail) =
           ''Ask dave.smith@enron.com for the file.''"
    unfolding transformBody_def d f b by simp
  show ?thesis
    unfolding e by (simp add: transformEmailList_def c a)
qed

subsection \<open>Time shift\<close>

text \<open>
  C8.  A run does not change the offset of its transformer.  The internal date of
  every message is the date of its record moved by that one offset, in processing
  order; moving two dates by the offset keeps their difference and their order.
\<close>

theorem C8_time_shift:
  "timeShift (snd (TransformDataset rt t emails)) = timeShift t \<and>
   map InternalDate (fst (TransformDataset rt t emails)) =
     map (\<lambda>e. showInt (UnixMilli (Add (Date e) (timeShift t))))
       (sortEmails rt (\<lambda>a b. Before (Date a) (Date b)) emails) \<and>
   (\<forall>a b. unixNano (Add (Date a) (timeShift t)) - unixNano (Add (Date b) (timeShift t)) =
          unixNano (Date a) - unixNano (Date b)) \<and>
   (\<forall>a b. Before (Add (Date a) (timeShift t)) (Add (Date b) (timeShift t)) =
          Before (Date a) (Date b))"
proof -
  let ?s = "sortEmails rt (\<lambda>a b. Before (Date a) (Date b)) emails"
  let ?t1 = "buildPersonaMap rt t ?s"
  have "timeShift (snd (TransformDataset_loop rt 0 ?s ?t1 [])) = timeShift t"
    and "map InternalDate (fst (TransformDataset_loop rt 0 ?s ?t1 [])) =
         map (\<lambda>e. showInt (UnixMilli (Add (Date e) (timeShift t)))) ?s"
    using TransformDataset_loop_dates [of rt 0 ?s ?t1 "[]"]
    by (simp_all add: buildPersonaMap_timeShift)
  then show ?thesis
    by (simp add: TransformDataset_def Let_def split_beta Add_def Before_def)
qed

theorem C8_time_shift_witness:
  "map InternalDate
     (fst (TransformDataset (small_run [''alice.adams@enron.com'', ''bob.brown@enron.com'',
                                        ''carol.clark@enron.com''])
             new_transformer [meeting_notes, budget_mail, budget_reply])) =
     [''1700888400000'', ''1700892000000'', ''1700974800000'']"
proof -
  have s: "showInt (UnixMilli (Add (Date budget_mail) (timeShift new_transformer))) = ''1700888400000''"
     "showInt (UnixMilli (Add (Date budget_reply) (timeShift new_transformer))) = ''1700892000000''"
     "showInt (UnixMilli (Add (Date meeting_notes) (timeShift new_transformer))) = ''1700974800000''"
    by (simp_all add: new_transformer_timeShift example_mails Add_def UnixMilli_def showInt_def
          showNat.simps)
  note c = C8_time_shift [of "small_run [''alice.adams@enron.com'', ''bob.brown@enron.com'',
                                        ''carol.clark@enron.com'']"
        new_transformer "[meeting_notes, budget_mail, budget_reply]",
        THEN conjunct2, THEN conjunct1]
  show ?thesis
    unfolding c budget_sorted by (simp add: s)
qed

subsection \<open>The metadata artifact\<close>

lemma transformHeaders_bare:
  "To e = [] \<Longrightarrow> CC e = [] \<Longrightarrow> length (transformHeaders t e) = 4"
  by (simp add: transformHeaders_def)

lemma GenerateTestData_panics:
  assumes "MkdirAll os dir = None"
      and "WriteFile os (filepathJoin dir ''gmail_messages.json'') = None"
      and "WriteFile os (filepathJoin dir ''list_messages_response.json'') = None"
      and "messages = [] \<or>
           (\<exists>p. Payload (hd messages) = Some p \<and> length (Headers p) < 5) \<or>
           (\<exists>p. Payload (last messages) = Some p \<and> length (Headers p) < 5)"
  shows "\<exists>written reason.
           GenerateTestData os messages dir = (written, Panicked reason) \<and>
           map fst written = [filepathJoin dir ''gmail_messages.json'',
                              filepathJoin dir ''list_messages_response.json'']"
proof (cases "messages = []")
  case True
  then show ?thesis using assms(1-3)
    by (simp add: GenerateTestData_def dateHeaderValue_def Let_def)
next
  case False
  then have l: "last messages = messages ! (length messages - 1)" and h: "hd messages = messages ! 0"
    by (simp_all add: last_conv_nth hd_conv_nth)
  have n: "nat (int (length messages) - 1) = length messages - 1" by simp
  from False assms(4) show ?thesis using assms(1-3)
    by (auto simp: GenerateTestData_def dateHeaderValue_def Let_def l h n
             split: option.splits sum.splits)
qed

text \<open>
  C10.  When the directory and the first two artifacts can be written, and the list of
  messages is empty or its first or its last message has fewer than five headers,
  \<^verbatim>\<open>GenerateTestData\<close> ends in a panic: it neither returns nor writes the metadata.  A
  record without \<^verbatim>\<open>To\<close> and \<^verbatim>\<open>Cc\<close> entries gives a message with four headers.
\<close>

theorem C10_metadata_panics:
  assumes "MkdirAll os dir = None"
      and "WriteFile os (filepathJoin dir ''gmail_messages.json'') = None"
      and "WriteFile os (filepathJoin dir ''list_messages_response.json'') = None"
      and "messages = [] \<or>
           (\<exists>p. Payload (hd messages) = Some p \<and> length (Headers p) < 5) \<or>
           (\<exists>p. Payload (last messages) = Some p \<and> length (Headers p) < 5)"
  shows "(\<exists>written reason.
           GenerateTestData os messages dir = (written, Panicked reason) \<and>
           map fst written = [filepathJoin dir ''gmail_messages.json'',
                              filepathJoin dir ''list_messages_response.json'']) \<and>
         (To enron = [] \<and> CC enron = [] \<longrightarrow>
           (\<exists>m p. fst (transformEmail order t enron) = Inr m \<and> Payload m = Some p \<and>
                  length (Headers p) = 4))"
  using GenerateTestData_panics [OF assms] transformEmail_message [of order t enron]
    transformHeaders_bare [of enron t]
  by auto

lemma single_message:
  assumes "map (\<lambda>m. map_option Headers (Payload m)) messages = [Some hs]"
  shows "\<exists>m p. messages = [m] \<and> Payload m = Some p \<and> Headers p = hs"
proof -
  from assms obtain m where m: "messages = [m]" by (cases messages) auto
  with assms obtain p where "Payload m = Some p" "Headers p = hs" by auto
  with m show ?thesis by simp
qed

lemma draft_headers:
  "map (\<lambda>m. map_option Headers (Payload m))
     (fst (TransformDataset (small_run []) new_transformer [draft_note])) =
   [Some (transformHeaders (buildPersonaMap (small_run []) new_transformer [draft_note]) draft_note)]"
  using TransformDataset_run [OF cache_ok_new, of "small_run []" "[draft_note]"]
  by (simp add: small_run_def insertionSort_def)

theorem C10_metadata_panics_witness:
  "MkdirAll os_ok ''test-data'' = None \<and>
   WriteFile os_ok (filepathJoin ''test-data'' ''gmail_messages.json'') = None \<and>
   WriteFile os_ok (filepathJoin ''test-data'' ''list_messages_response.json'') = None \<and>
   (\<exists>written reason.
      GenerateTestData os_ok [] ''test-data'' = (written, Panicked reason) \<and>
      map fst written = [filepathJoin ''test-data'' ''gmail_messages.json'',
                         filepathJoin ''test-data'' ''list_messages_response.json'']) \<and>
   To draft_note = [] \<and> CC draft_note = [] \<and>
   (\<exists>p. Payload (hd (fst (TransformDataset (small_run []) new_transformer [draft_note]))) = Some p
        \<and> length (Headers p) < 5) \<and>
   (\<exists>written reason.
      GenerateTestData os_ok (fst (TransformDataset (small_run []) new_transformer [draft_note]))
        ''test-data'' = (written, Panicked reason) \<and>
      map fst written = [filepathJoin ''test-data'' ''gmail_messages.json'',
                         filepathJoin ''test-data'' ''list_messages_response.json''])"
proof -
  have io: "MkdirAll os_ok ''test-data'' = None"
    "WriteFile os_ok (filepathJoin ''test-data'' ''gmail_messages.json'') = None"
    "WriteFile os_ok (filepathJoin ''test-data'' ''list_messages_response.json'') = None"
    by (simp_all add: os_ok_def)
  have bare: "To draft_note = []" "CC draft_note = []"
    by (simp_all add: example_mails)
  let ?msgs = "fst (TransformDataset (small_run []) new_transformer [draft_note])"
  obtain m p where m: "?msgs = [m]" "Payload m = Some p"
    "Headers p = transformHeaders (buildPersonaMap (small_run []) new_transformer [draft_note]) draft_note"
    using single_message [OF draft_headers] by blast
  have few: "\<exists>p. Payload (hd ?msgs) = Some p \<and> length (Headers p) < 5"
    using m by (simp add: transformHeaders_bare [OF bare])
  have e: "([]::GmailMessage list) = [] \<or>
           (\<exists>p. Payload (hd ([]::GmailMessage list)) = Some p \<and> length (Headers p) < 5) \<or>
           (\<exists>p. Payload (last ([]::GmailMessage list)) = Some p \<and> length (Headers p) < 5)"
    by simp
  have f: "?msgs = [] \<or>
           (\<exists>p. Payload (hd ?msgs) = Some p \<and> length (Headers p) < 5) \<or>
           (\<exists>p. Payload (last ?msgs) = Some p \<and> length (Headers p) < 5)"
    using few by blast
  show ?thesis
    using io bare few
      C10_metadata_panics [OF io e, THEN conjunct1]
      C10_metadata_panics [OF io f, THEN conjunct1]
    by blast
qed

lemma dateHeaderValue_single:
  "Payload m = Some p \<Longrightarrow> 4 < length (Headers p)
   \<Longrightarrow> dateHeaderValue [m] 0 = Inr (Value (Headers p ! 4))"
  by (simp add: dateHeaderValue_def)

lemma GenerateTestData_written:
  assumes "dateHeaderValue messages 0 = Inr s"
      and "dateHeaderValue messages (int (length messages) - 1) = Inr e"
  shows "\<exists>listing md.
           GenerateTestData os_ok messages dir =
             (listing @ [(filepathJoin dir ''test_metadata.json'', MetadataJSON md)],
              Returned None) \<and>
           dateRange_start md = s \<and> dateRange_end md = e"
  using assms by (simp add: GenerateTestData_def os_ok_def Let_def)

lemma reply_contactFreq:
  "contactFreq ''kaminski'' [budget_reply] = [''alice.adams@enron.com'' \<mapsto> 1]"
  by (simp add: contactFreq_def countAddress_def example_mails extractEmail_def string_eval)

lemma reply_date:
  "FormatRFC1123Z \<lparr>unixNano = 1700892000000000000, zoneOffset = - 25200\<rparr> =
     ''Fri, 24 Nov 2023 23:00:00 -0700''"
  by code_simp

lemma reply_transformHeaders:
  "transformHeaders
     (buildPersonaMap (small_run [''alice.adams@enron.com'']) new_transformer [budget_reply])
     budget_reply =
   [\<lparr>Header.Name = ''From'', Value = ''Sarah Chen <sarah.chen@gmail.com>''\<rparr>,
    \<lparr>Header.Name = ''To'', Value = ''You <test@example.com>''\<rparr>,
    \<lparr>Header.Name = ''Subject'', Value = ''Re: Budget''\<rparr>,
    \<lparr>Header.Name = ''Date'', Value = ''Fri, 24 Nov 2023 23:00:00 -0700''\<rparr>,
    \<lparr>Header.Name = ''Message-ID'', Value = ''<e9653e1ed02fe7fb@mail.gmail.com>''\<rparr>]"
proof -
  let ?t = "buildPersonaMap (small_run [''alice.adams@enron.com'']) new_transformer [budget_reply]"
  have f: "From budget_reply = ''alice.adams@enron.com''"
    "To budget_reply = [''vince.kaminski@enron.com'']" "CC budget_reply = []"
    "Subject budget_reply = ''Re: Budget''"
    "MessageID budget_reply = ''<1002.JavaMail.evans@thyme>''"
    "Date budget_reply = \<lparr>unixNano = 989863200 * 1000000000, zoneOffset = - 25200\<rparr>"
    by (simp_all add: example_mails)
  have t: "personaMap ?t ''alice.adams@enron.com'' = Some (personas ! 0)"
    "enronUserName ?t = ''kaminski''" "userEmail ?t = ''test@example.com''"
    by (simp_all add: reply_contactFreq buildPersonaMap_def assignPersonas_def small_run_def
        insertionSort_def List.map_filter_def serviceEmails_def new_transformer_fields Let_def
        personas_def)
  have ts: "timeShift ?t = 711028800 * 1000000000"
    by (simp add: buildPersonaMap_rest new_transformer_timeShift)
  have a: "transformEmailAddress ?t ''alice.adams@enron.com'' = ''Sarah Chen <sarah.chen@gmail.com>''"
    by (simp add: transformEmailAddress_def t extractEmail_def string_eval personas_def)
  have b: "transformEmailAddress ?t ''vince.kaminski@enron.com'' = ''You <test@example.com>''"
    by (simp add: transformEmailAddress_def t extractEmail_def string_eval)
  show ?thesis
    unfolding transformHeaders_def f ts
    by (simp add: a b transformEmailList_def Add_def reply_date gmail_ids)
qed

text \<open>
  C5 (where the code departs from it).  Alice's answer has a \<^verbatim>\<open>To\<close> entry and no \<^verbatim>\<open>Cc\<close>
  entry, so its message has five headers and the one at index 4 is \<^verbatim>\<open>Message-ID\<close>, not
  \<^verbatim>\<open>Date\<close>.  The metadata of the run on this record alone gives the message identifier
  as both ends of the date range.
\<close>

theorem C5_date_range_is_message_id:
  "map (\<lambda>m. map_option Headers (Payload m))
     (fst (TransformDataset (small_run [''alice.adams@enron.com'']) new_transformer [budget_reply])) =
   [Some [\<lparr>Header.Name = ''From'', Value = ''Sarah Chen <sarah.chen@gmail.com>''\<rparr>,
          \<lparr>Header.Name = ''To'', Value = ''You <test@example.com>''\<rparr>,
          \<lparr>Header.Name = ''Subject'', Value = ''Re: Budget''\<rparr>,
          \<lparr>Header.Name = ''Date'', Value = ''Fri, 24 Nov 2023 23:00:00 -0700''\<rparr>,
          \<lparr>Header.Name = ''Message-ID'', Value = ''<e9653e1ed02fe7fb@mail.gmail.com>''\<rparr>]] \<and>
   (\<exists>listing md.
      GenerateTestData os_ok
        (fst (TransformDataset (small_run [''alice.adams@enron.com'']) new_transformer [budget_reply]))
        ''test-data'' =
        (listing @ [(filepathJoin ''test-data'' ''test_metadata.json'', MetadataJSON md)],
         Returned None) \<and>
      dateRange_start md = ''<e9653e1ed02fe7fb@mail.gmail.com>'' \<and>
      dateRange_end md = ''<e9653e1ed02fe7fb@mail.gmail.com>'')"
proof -
  let ?msgs = "fst (TransformDataset (small_run [''alice.adams@enron.com'']) new_transformer [budget_reply])"
  have h: "map (\<lambda>m. map_option Headers (Payload m)) ?msgs =
           [Some (transformHeaders
              (buildPersonaMap (small_run [''alice.adams@enron.com'']) new_transformer [budget_reply])
              budget_reply)]"
    using TransformDataset_run [OF cache_ok_new, of "small_run [''alice.adams@enron.com'']"
        "[budget_reply]"]
    by (simp add: small_run_def insertionSort_def)
  obtain m p where m: "?msgs = [m]" "Payload m = Some p"
    "Headers p = transformHeaders
              (buildPersonaMap (small_run [''alice.adams@enron.com'']) new_transformer [budget_reply])
              budget_reply"
    using single_message [OF h] by blast
  have d: "dateHeaderValue ?msgs 0 = Inr ''<e9653e1ed02fe7fb@mail.gmail.com>''"
    unfolding m(1) using dateHeaderValue_single [OF m(2)] by (simp add: m(3) reply_transformHeaders)
  have d': "dateHeaderValue ?msgs (int (length ?msgs) - 1) = Inr ''<e9653e1ed02fe7fb@mail.gmail.com>''"
    using d by (simp add: m(1))
  show ?thesis
    using GenerateTestData_written [OF d d', of "''test-data''"]
    unfolding h reply_transformHeaders by simp
qed

end
